theory Spec2Isabelle
  imports Main
begin

section \<open>The gateway's process-wide state (server.js, lines 428-430)\<close>

text \<open>
  The model follows the server that begins at line 373 of \<open>server.js\<close>; line numbers
  refer to that file.

  The gateway keeps three JavaScript \<open>Map\<close>s: \<open>clients\<close> (session id to engine handle),
  \<open>qrCodes\<close> (session id to the cached QR payload) and \<open>webhooks\<close> (session id to
  destination URL). An engine handle is identified by the number of the
  \<open>wppconnect.create\<close> call that produced it: every such call appends one entry to
  \<open>engines\<close>, which holds the local variables of the start-session invocation that
  made the call (the engine's callbacks close over them) and the state of the creation
  promise. \<open>calls\<close> is the trace of the engine methods invoked on handles.

  Values thrown by the engine or by \<open>fetch\<close> are modelled as \<open>Error\<close> objects, of
  which only the \<open>message\<close> is kept.
\<close>

type_synonym session = string
type_synonym handle = nat

datatype promise_state = Pending | Resolved | Rejected

record creation =
  c_session :: session
  qrCode :: "string option"
  sessionStatus :: string
  clientCreated :: bool
  createError :: "string option"
  promise :: promise_state

datatype engine_call =
    IsConnected handle
  | Close handle
  | Logout handle
  | SendText handle string string

record server =
  clients :: "session \<rightharpoonup> handle"
  qrCodes :: "session \<rightharpoonup> string"
  webhooks :: "session \<rightharpoonup> string"
  engines :: "creation list"
  calls :: "engine_call list"

definition initial :: server where
  "initial = \<lparr>clients = Map.empty, qrCodes = Map.empty, webhooks = Map.empty,
              engines = [], calls = []\<rparr>"

text \<open>JavaScript truthiness of an optional string: \<open>undefined\<close>, \<open>null\<close> and the empty
  string are falsy.\<close>

fun truthy :: "string option \<Rightarrow> bool" where
  "truthy None = False"
| "truthy (Some v) = (v \<noteq> [])"

section \<open>Webhook dispatcher: \<open>sendToWebhook\<close> (lines 433-476)\<close>

text \<open>
  What one \<open>fetch\<close> call does is decided by the destination: it answers with an HTTP
  status, the connection fails, or nothing arrives within 10000 ms and the
  \<open>AbortController\<close> aborts the request. The last two make \<open>fetch\<close> throw.
\<close>

datatype fetch_outcome = HttpStatus nat | NetworkError string | NoAnswerIn10s

datatype wh_event =
    Post string string
  | Sleep nat
  | LogSent session
  | LogHttpError session nat nat nat
  | LogFailed session string nat nat
  | LogPermanent session nat

definition fetch :: "fetch_outcome \<Rightarrow> string + nat" where
  "fetch out = (case out of
       HttpStatus st \<Rightarrow> Inr st
     | NetworkError m \<Rightarrow> Inl m
     | NoAnswerIn10s \<Rightarrow> Inl ''This operation was aborted'')"

definition response_ok :: "nat \<Rightarrow> bool" where
  "response_ok st = (200 \<le> st \<and> st \<le> 299)"

text \<open>The body of the \<open>for\<close> loop for one value of \<open>attempt\<close>: the events it produces and
  whether the function returns from inside the loop.\<close>

definition attempt_body ::
  "(nat \<Rightarrow> fetch_outcome) \<Rightarrow> session \<Rightarrow> string \<Rightarrow> string \<Rightarrow> nat \<Rightarrow> nat \<Rightarrow> wh_event list \<times> bool" where
  "attempt_body dest session webhookUrl payload retries attempt =
     (case fetch (dest attempt) of
        Inr st \<Rightarrow>
          if response_ok st then ([Post webhookUrl payload, LogSent session], True)
          else ([Post webhookUrl payload, LogHttpError session st attempt retries]
                  @ (if attempt < retries then [Sleep (1000 * 2 ^ (attempt - 1))] else []), False)
      | Inl m \<Rightarrow>
          ([Post webhookUrl payload, LogFailed session m attempt retries]
             @ (if attempt < retries then [Sleep (1000 * 2 ^ (attempt - 1))] else []), False))"

function attempts_from ::
  "(nat \<Rightarrow> fetch_outcome) \<Rightarrow> session \<Rightarrow> string \<Rightarrow> string \<Rightarrow> nat \<Rightarrow> nat \<Rightarrow> wh_event list" where
  "attempts_from dest session webhookUrl payload retries attempt =
     (if attempt \<le> retries then
        (case attempt_body dest session webhookUrl payload retries attempt of
           (evs, True) \<Rightarrow> evs
         | (evs, False) \<Rightarrow> evs @ attempts_from dest session webhookUrl payload retries (Suc attempt))
      else [LogPermanent session retries])"
  by pat_completeness auto
termination
  by (relation "measure (\<lambda>(dest, session, webhookUrl, payload, retries, attempt). Suc retries - attempt)") auto

declare attempts_from.simps [simp del]

text \<open>\<open>sendToWebhook\<close> returns the events it produced and how it ended: \<open>Inr ()\<close> for a
  normal return, \<open>Inl m\<close> for an error thrown to the caller. \<open>payload\<close> stands for the
  serialised JSON body.\<close>

definition sendToWebhook ::
  "server \<Rightarrow> (nat \<Rightarrow> fetch_outcome) \<Rightarrow> session \<Rightarrow> string \<Rightarrow> nat \<Rightarrow> wh_event list \<times> (string + unit)" where
  "sendToWebhook s dest session payload retries =
     (if \<not> truthy (webhooks s session) then ([], Inr ())
      else (attempts_from dest session (the (webhooks s session)) payload retries 1, Inr ()))"

definition delivery_fails :: "fetch_outcome \<Rightarrow> bool" where
  "delivery_fails out = (case out of HttpStatus st \<Rightarrow> \<not> response_ok st | _ \<Rightarrow> True)"

text \<open>The log line written when attempt \<open>attempt\<close> fails.\<close>

definition failure_log :: "session \<Rightarrow> fetch_outcome \<Rightarrow> nat \<Rightarrow> nat \<Rightarrow> wh_event" where
  "failure_log session out attempt retries =
     (case out of
        HttpStatus st \<Rightarrow> LogHttpError session st attempt retries
      | NetworkError m \<Rightarrow> LogFailed session m attempt retries
      | NoAnswerIn10s \<Rightarrow> LogFailed session ''This operation was aborted'' attempt retries)"

fun is_post :: "wh_event \<Rightarrow> bool" where
  "is_post (Post u p) = True"
| "is_post e = False"

fun sleeps :: "wh_event list \<Rightarrow> nat list" where
  "sleeps [] = []"
| "sleeps (Sleep d # es) = d # sleeps es"
| "sleeps (e # es) = sleeps es"

section \<open>Awaited engine calls and HTTP responses\<close>

text \<open>
  What an awaited engine promise does is a parameter of every handler: it resolves
  with a value or rejects with an error after some milliseconds, or it never settles.
  \<open>race_timeout\<close> is \<open>Promise.race\<close> against a timer that rejects with \<open>new Error(msg)\<close>.
  The engine is called before the timer is set, so a promise that settles at the very
  millisecond of the timer wins the race.
\<close>

datatype 'a outcome = Resolves nat 'a | Rejects nat string | Never

fun race_timeout :: "nat \<Rightarrow> string \<Rightarrow> 'a outcome \<Rightarrow> 'a outcome" where
  "race_timeout ms msg (Resolves t v) = (if t \<le> ms then Resolves t v else Rejects ms msg)"
| "race_timeout ms msg (Rejects t e) = (if t \<le> ms then Rejects t e else Rejects ms msg)"
| "race_timeout ms msg Never = Rejects ms msg"

text \<open>A response is the HTTP status code and the JSON object passed to \<open>res.json\<close>.
  \<open>JOpaque\<close> stands for a value the model does not compute (a stack trace, the uptime);
  its argument names the source expression.\<close>

datatype json = JNull | JBool bool | JStr string | JNum nat | JOpaque string

record response =
  code :: nat
  body :: "(string \<times> json) list"

definition json_or_null :: "string option \<Rightarrow> json" where
  "json_or_null v = (case v of None \<Rightarrow> JNull | Some x \<Rightarrow> JStr x)"

section \<open>Engine callbacks and the settling of the creation promise (lines 587-782)\<close>

datatype event =
    CatchQR handle string
  | StatusFind handle string
  | CreateResolves handle
  | CreateRejects handle string

definition set_local :: "handle \<Rightarrow> (creation \<Rightarrow> creation) \<Rightarrow> server \<Rightarrow> server" where
  "set_local eid f s = s\<lparr>engines := (engines s)[eid := f (engines s ! eid)]\<rparr>"

text \<open>\<open>catchQR\<close> (lines 591-596).\<close>

definition catchQR :: "handle \<Rightarrow> string \<Rightarrow> server \<Rightarrow> server" where
  "catchQR eid base64Qr s =
     (let session = c_session (engines s ! eid) in
      set_local eid (\<lambda>c. c\<lparr>qrCode := Some base64Qr, sessionStatus := ''qrcode''\<rparr>)
        (s\<lparr>qrCodes := (qrCodes s)(session \<mapsto> base64Qr)\<rparr>))"

text \<open>\<open>statusFind\<close> (lines 597-606).\<close>

definition statusFind :: "handle \<Rightarrow> string \<Rightarrow> server \<Rightarrow> server" where
  "statusFind eid status s =
     (let session = c_session (engines s ! eid) in
      if status = ''authenticated'' \<or> status = ''isLogged'' then
        set_local eid (\<lambda>c. c\<lparr>sessionStatus := ''connected''\<rparr>)
          (s\<lparr>qrCodes := (qrCodes s)(session := None)\<rparr>)
      else set_local eid (\<lambda>c. c\<lparr>sessionStatus := status\<rparr>) s)"

text \<open>The \<open>.then\<close> callback of the creation promise (lines 697-769); the listeners it
  registers only forward later engine events to \<open>sendToWebhook\<close>.\<close>

definition create_then :: "handle \<Rightarrow> server \<Rightarrow> server" where
  "create_then eid s =
     (let session = c_session (engines s ! eid) in
      set_local eid (\<lambda>c. c\<lparr>clientCreated := True, promise := Resolved\<rparr>)
        (s\<lparr>clients := (clients s)(session \<mapsto> eid)\<rparr>))"

text \<open>The \<open>.catch\<close> callback of the creation promise (lines 770-782).\<close>

definition create_catch :: "handle \<Rightarrow> string \<Rightarrow> server \<Rightarrow> server" where
  "create_catch eid err s =
     (let session = c_session (engines s ! eid) in
      set_local eid (\<lambda>c. c\<lparr>createError := Some err, promise := Rejected\<rparr>)
        (s\<lparr>clients := (clients s)(session := None), qrCodes := (qrCodes s)(session := None)\<rparr>))"

text \<open>An event of an engine that was never launched does not happen, and a promise
  settles once.\<close>

fun apply_event :: "event \<Rightarrow> server \<Rightarrow> server" where
  "apply_event (CatchQR eid q) s = (if eid < length (engines s) then catchQR eid q s else s)"
| "apply_event (StatusFind eid st) s = (if eid < length (engines s) then statusFind eid st s else s)"
| "apply_event (CreateResolves eid) s =
     (if eid < length (engines s) \<and> promise (engines s ! eid) = Pending then create_then eid s else s)"
| "apply_event (CreateRejects eid err) s =
     (if eid < length (engines s) \<and> promise (engines s ! eid) = Pending then create_catch eid err s else s)"

fun apply_events :: "event list \<Rightarrow> server \<Rightarrow> server" where
  "apply_events [] s = s"
| "apply_events (e # es) s = apply_events es (apply_event e s)"

section \<open>POST /api/:session/start-session (lines 518-839)\<close>

text \<open>The call of \<open>wppconnect.create\<close> (line 587) with the handler's fresh locals
  (lines 577-580); the new engine's handle is its position in \<open>engines\<close>.\<close>

definition launch :: "session \<Rightarrow> server \<Rightarrow> server" where
  "launch session s =
     s\<lparr>engines := engines s @
          [\<lparr>c_session = session, qrCode = None, sessionStatus = ''initializing'',
            clientCreated = False, createError = None, promise = Pending\<rparr>]\<rparr>"

text \<open>
  The QR wait loop (lines 790-792). The clock advances by the 500 ms of every sleep
  and by nothing else; \<open>sched t\<close> lists what the engine does during the sleep that starts
  \<open>t\<close> ms after the loop was entered. The result is the time spent and the state reached.
\<close>

definition waiting :: "handle \<Rightarrow> server \<Rightarrow> bool" where
  "waiting eid s = (\<not> truthy (qrCode (engines s ! eid)) \<and> createError (engines s ! eid) = None)"

function qr_wait :: "(nat \<Rightarrow> event list) \<Rightarrow> handle \<Rightarrow> nat \<Rightarrow> server \<Rightarrow> nat \<times> server" where
  "qr_wait sched eid elapsed s =
     (if waiting eid s \<and> elapsed < 30000
      then qr_wait sched eid (elapsed + 500) (apply_events (sched elapsed) s)
      else (elapsed, s))"
  by pat_completeness auto
termination
  by (relation "measure (\<lambda>(sched, eid, elapsed, s). 30000 - elapsed)") auto

declare qr_wait.simps [simp del]

text \<open>\<open>clients.delete(session); qrCodes.delete(session)\<close>, as several handlers do.\<close>

definition forget :: "session \<Rightarrow> server \<Rightarrow> server" where
  "forget session s =
     s\<lparr>clients := (clients s)(session := None), qrCodes := (qrCodes s)(session := None)\<rparr>"

text \<open>The \<open>catch\<close> block of the handler (lines 823-838).\<close>

definition start_failed :: "session \<Rightarrow> string \<Rightarrow> server \<Rightarrow> response option \<times> server" where
  "start_failed session msg s =
     (Some \<lparr>code = 500,
            body = [(''success'', JBool False), (''error'', JStr msg),
                    (''details'', JOpaque ''error.stack''), (''session'', JStr session)]\<rparr>,
      forget session s)"

text \<open>The message of the error thrown when the creation failed (lines 797-801):
  \<open>createError.message\<close>, or \<open>createError.toString()\<close> when the message is empty.\<close>

definition create_error_message :: "string \<Rightarrow> string" where
  "create_error_message m = (if m \<noteq> [] then m else ''Error'')"

text \<open>Lines 577-782, which run without suspension: the engine is launched, the
  webhook is registered when the body carries one, and the callbacks of the creation
  promise are attached.\<close>

definition prepare :: "server \<Rightarrow> session \<Rightarrow> string option \<Rightarrow> server" where
  "prepare s session webhook =
     (let s1 = launch session s
      in if truthy webhook then s1\<lparr>webhooks := (webhooks s1)(session \<mapsto> the webhook)\<rparr> else s1)"

text \<open>Lines 562-821 and the \<open>catch\<close> block: everything after the check for an existing
  client.\<close>

definition create_session ::
  "server \<Rightarrow> session \<Rightarrow> string option \<Rightarrow> bool \<Rightarrow> (nat \<Rightarrow> event list) \<Rightarrow> response option \<times> server" where
  "create_session s session webhook waitQrCode sched =
     (let eid = length (engines s);
          s2 = prepare s session webhook;
          s3 = (if waitQrCode then snd (qr_wait sched eid 0 s2) else s2);
          c = engines s3 ! eid
      in if waitQrCode \<and> createError c \<noteq> None then
           start_failed session (create_error_message (the (createError c))) s3
         else if waitQrCode \<and> \<not> truthy (qrCode c) then
           start_failed session
             ''QR code generation timeout - the server may be overloaded, please try again'' s3
         else
           (Some \<lparr>code = 200,
                  body = [(''success'', JBool True), (''session'', JStr session),
                          (''qrCode'', json_or_null (qrCode c)),
                          (''status'', JStr (sessionStatus c)),
                          (''message'', JStr (if truthy (qrCode c)
                                              then ''QR Code ready - scan to connect''
                                              else ''Session starting'')),
                          (''webhook'', if truthy webhook then JStr (the webhook) else JNull)]\<rparr>,
            s3))"

text \<open>
  The whole handler. \<open>ic\<close> is what \<open>client.isConnected()\<close> does and \<open>cl\<close> what
  \<open>client.close()\<close> does, should the handler call them. A handler that awaits a promise
  that never settles sends no response: the result is \<open>None\<close>.
\<close>

definition start_session ::
  "server \<Rightarrow> session \<Rightarrow> string option \<Rightarrow> bool \<Rightarrow> bool outcome \<Rightarrow> unit outcome \<Rightarrow>
   (nat \<Rightarrow> event list) \<Rightarrow> response option \<times> server" where
  "start_session s session webhook waitQrCode ic cl sched =
     (case clients s session of
        None \<Rightarrow> create_session s session webhook waitQrCode sched
      | Some client \<Rightarrow>
          (let s1 = s\<lparr>calls := calls s @ [IsConnected client]\<rparr> in
           case ic of
             Never \<Rightarrow> (None, s1)
           | Resolves t isConnected \<Rightarrow>
               if isConnected then
                 (Some \<lparr>code = 200,
                        body = [(''success'', JBool True),
                                (''message'', JStr ''Session already connected''),
                                (''status'', JStr ''connected''),
                                (''session'', JStr session), (''qrCode'', JNull)]\<rparr>, s1)
               else if qrCodes s1 session \<noteq> None then
                 (Some \<lparr>code = 200,
                        body = [(''success'', JBool True),
                                (''message'', JStr ''Session exists with QR code''),
                                (''status'', JStr ''qrcode''),
                                (''session'', JStr session),
                                (''qrCode'', json_or_null (qrCodes s1 session))]\<rparr>, s1)
               else create_session s1 session webhook waitQrCode sched
           | Rejects t err \<Rightarrow>
               (let s2 = s1\<lparr>calls := calls s1 @ [Close client]\<rparr> in
                case cl of
                  Never \<Rightarrow> (None, s2)
                | _ \<Rightarrow> create_session (forget session s2) session webhook waitQrCode sched)))"

text \<open>The QR wait of a start-session call that launches its engine from state \<open>s\<close>:
  the engine's handle is \<open>length (engines s)\<close>.\<close>

definition qr_wait_of ::
  "server \<Rightarrow> session \<Rightarrow> string option \<Rightarrow> (nat \<Rightarrow> event list) \<Rightarrow> nat \<times> server" where
  "qr_wait_of s session webhook sched =
     qr_wait sched (length (engines s)) 0 (prepare s session webhook)"

text \<open>What the loop can observe at its \<open>k\<close>-th test of the condition, \<open>500 * k\<close> ms after
  it was entered from state \<open>s\<close>: the engines' events of the first \<open>k\<close> sleeps have
  happened.\<close>

fun state_after :: "(nat \<Rightarrow> event list) \<Rightarrow> nat \<Rightarrow> server \<Rightarrow> server" where
  "state_after sched 0 s = s"
| "state_after sched (Suc k) s = apply_events (sched (500 * k)) (state_after sched k s)"

text \<open>The engine instances of a session that are live: launched, their creation not
  rejected, and \<open>close()\<close> never called on them.\<close>

definition live_engines :: "server \<Rightarrow> session \<Rightarrow> handle list" where
  "live_engines s session =
     filter (\<lambda>eid. c_session (engines s ! eid) = session \<and> promise (engines s ! eid) \<noteq> Rejected
                    \<and> Close eid \<notin> set (calls s))
            [0 ..< length (engines s)]"

section \<open>GET /api/:session/qrcode (lines 842-888)\<close>

text \<open>Both maps are read before \<open>isConnected\<close> is awaited; an error of the check is
  logged and the handler goes on.\<close>

definition qr_answer :: "session \<Rightarrow> string option \<Rightarrow> response" where
  "qr_answer session qr =
     (if \<not> truthy qr then
        \<lparr>code = 404,
         body = [(''success'', JBool False), (''error'', JStr ''QR Code not available''),
                 (''message'', JStr ''Session may be connected or not started''),
                 (''connected'', JBool False)]\<rparr>
      else
        \<lparr>code = 200,
         body = [(''success'', JBool True), (''session'', JStr session),
                 (''qrCode'', json_or_null qr), (''connected'', JBool False),
                 (''status'', JStr ''qrcode'')]\<rparr>)"

definition qrcode_route :: "server \<Rightarrow> session \<Rightarrow> bool outcome \<Rightarrow> response option \<times> server" where
  "qrcode_route s session ic =
     (let qr = qrCodes s session in
      case clients s session of
        None \<Rightarrow> (Some (qr_answer session qr), s)
      | Some client \<Rightarrow>
          (let s1 = s\<lparr>calls := calls s @ [IsConnected client]\<rparr> in
           case ic of
             Never \<Rightarrow> (None, s1)
           | Resolves t isConnected \<Rightarrow>
               if isConnected then
                 (Some \<lparr>code = 200,
                        body = [(''success'', JBool True), (''session'', JStr session),
                                (''connected'', JBool True), (''status'', JStr ''connected''),
                                (''qrCode'', JNull),
                                (''message'', JStr ''Session already connected'')]\<rparr>, s1)
               else (Some (qr_answer session qr), s1)
           | Rejects t err \<Rightarrow> (Some (qr_answer session qr), s1)))"

section \<open>GET /api/:session/status (lines 891-925)\<close>

definition status_route :: "server \<Rightarrow> session \<Rightarrow> bool outcome \<Rightarrow> response option \<times> server" where
  "status_route s session ic =
     (case clients s session of
        None \<Rightarrow>
          (Some \<lparr>code = 200,
                 body = [(''success'', JBool False), (''status'', JStr ''notLogged''),
                         (''session'', JStr session), (''connected'', JBool False)]\<rparr>, s)
      | Some client \<Rightarrow>
          (let s1 = s\<lparr>calls := calls s @ [IsConnected client]\<rparr> in
           case race_timeout 5000 ''Timeout'' ic of
             Resolves t isConnected \<Rightarrow>
               (Some \<lparr>code = 200,
                      body = [(''success'', JBool True), (''session'', JStr session),
                              (''status'', JStr (if isConnected then ''connected'' else ''notLogged'')),
                              (''connected'', JBool isConnected)]\<rparr>, s1)
           | Rejects t err \<Rightarrow>
               (Some \<lparr>code = 200,
                      body = [(''success'', JBool False), (''status'', JStr ''error''),
                              (''error'', JStr err), (''connected'', JBool False)]\<rparr>, s1)
           | Never \<Rightarrow> (None, s1)))"

section \<open>POST /api/:session/logout (lines 928-968)\<close>

text \<open>
  \<open>lo\<close> is what \<open>client.logout()\<close> does and \<open>cl\<close> what \<open>client.close()\<close> does. The handler
  is suspended while it awaits them: \<open>during\<close> lists what the engines do meanwhile, so
  that the two \<open>delete\<close> calls act on the maps as they are when the handler resumes.
\<close>

definition logout_route ::
  "server \<Rightarrow> session \<Rightarrow> unit outcome \<Rightarrow> unit outcome \<Rightarrow> event list \<Rightarrow> response option \<times> server" where
  "logout_route s session lo cl during =
     (case clients s session of
        None \<Rightarrow>
          (Some \<lparr>code = 404,
                 body = [(''success'', JBool False), (''error'', JStr ''Session not found'')]\<rparr>, s)
      | Some client \<Rightarrow>
          (let s1 = s\<lparr>calls := calls s @ [Logout client]\<rparr> in
           case race_timeout 5000 ''Logout timeout'' lo of
             Resolves t u \<Rightarrow>
               (let s2 = s1\<lparr>calls := calls s1 @ [Close client]\<rparr> in
                case cl of
                  Resolves t' u' \<Rightarrow>
                    (Some \<lparr>code = 200,
                           body = [(''success'', JBool True),
                                   (''message'', JStr ''Logged out successfully''),
                                   (''session'', JStr session)]\<rparr>,
                     forget session (apply_events during s2))
                | Rejects t' err \<Rightarrow>
                    (Some \<lparr>code = 500,
                           body = [(''success'', JBool False), (''error'', JStr err)]\<rparr>,
                     forget session (apply_events during s2))
                | Never \<Rightarrow> (None, apply_events during s2))
           | Rejects t err \<Rightarrow>
               (Some \<lparr>code = 500,
                      body = [(''success'', JBool False), (''error'', JStr err)]\<rparr>,
                forget session (apply_events during s1))
           | Never \<Rightarrow> (None, apply_events during s1)))"

section \<open>POST /api/:session/sendText (lines 971-1020)\<close>

fun includes_str :: "string \<Rightarrow> string \<Rightarrow> bool" where
  "includes_str [] pat = (pat = [])"
| "includes_str (c # cs) pat = (take (length pat) (c # cs) = pat \<or> includes_str cs pat)"

text \<open>\<open>phone\<close> and \<open>message\<close> are the body's fields when they are strings, \<open>st\<close> is what
  \<open>client.sendText\<close> does.\<close>

definition sendText_route ::
  "server \<Rightarrow> session \<Rightarrow> string option \<Rightarrow> string option \<Rightarrow> bool outcome \<Rightarrow> json outcome \<Rightarrow>
   response option \<times> server" where
  "sendText_route s session phone message ic st =
     (if \<not> truthy phone \<or> \<not> truthy message then
        (Some \<lparr>code = 400,
               body = [(''success'', JBool False), (''error'', JStr ''Missing phone or message'')]\<rparr>, s)
      else case clients s session of
        None \<Rightarrow>
          (Some \<lparr>code = 404,
                 body = [(''success'', JBool False), (''error'', JStr ''Session not found'')]\<rparr>, s)
      | Some client \<Rightarrow>
          (let s1 = s\<lparr>calls := calls s @ [IsConnected client]\<rparr> in
           case ic of
             Never \<Rightarrow> (None, s1)
           | Rejects t err \<Rightarrow>
               (Some \<lparr>code = 500, body = [(''success'', JBool False), (''error'', JStr err)]\<rparr>, s1)
           | Resolves t isConnected \<Rightarrow>
               if \<not> isConnected then
                 (Some \<lparr>code = 400,
                        body = [(''success'', JBool False),
                                (''error'', JStr ''Session not connected'')]\<rparr>, s1)
               else
                 (let phoneNumber = (if includes_str (the phone) ''@c.us'' then the phone
                                     else the phone @ ''@c.us'');
                      s2 = s1\<lparr>calls := calls s1 @ [SendText client phoneNumber (the message)]\<rparr>
                  in case st of
                       Never \<Rightarrow> (None, s2)
                     | Rejects t' err \<Rightarrow>
                         (Some \<lparr>code = 500,
                                body = [(''success'', JBool False), (''error'', JStr err)]\<rparr>, s2)
                     | Resolves t' result \<Rightarrow>
                         (Some \<lparr>code = 200,
                                body = [(''success'', JBool True), (''result'', result),
                                        (''session'', JStr session), (''to'', JStr phoneNumber),
                                        (''message'', JStr ''Sent successfully'')]\<rparr>, s2))))"

section \<open>The \<open>authenticate\<close> middleware and the route table (lines 479-1433)\<close>

record headers =
  authorization :: "string option"
  x_api_key :: "string option"

text \<open>\<open>String.prototype.replace\<close> with a string pattern and the empty replacement:
  the first occurrence of the pattern is removed.\<close>

fun remove_first :: "string \<Rightarrow> string \<Rightarrow> string" where
  "remove_first pat [] = []"
| "remove_first pat (c # cs) =
     (if take (length pat) (c # cs) = pat then drop (length pat) (c # cs)
      else c # remove_first pat cs)"

definition request_key :: "headers \<Rightarrow> string option" where
  "request_key h =
     (case authorization h of
        None \<Rightarrow> x_api_key h
      | Some a \<Rightarrow> (if remove_first ''Bearer '' a \<noteq> [] then Some (remove_first ''Bearer '' a)
                   else x_api_key h))"

text \<open>\<open>authenticate\<close> lets the request through (\<open>next()\<close>) or answers 401. The
  middleware of the framework itself (\<open>cors()\<close>, \<open>express.json()\<close>) is not modelled.\<close>

definition authenticate :: "string \<Rightarrow> headers \<Rightarrow> response option" where
  "authenticate API_KEY h =
     (if \<not> truthy (request_key h) \<or> the (request_key h) \<noteq> API_KEY
      then Some \<lparr>code = 401, body = [(''error'', JStr ''Unauthorized'')]\<rparr>
      else None)"

datatype http_method = GET | POST | DELETE

datatype segment = Lit string | Param string

datatype handler_id =
    Root | Health | StartSession | QrCode | Status | LogoutSession | SendTextMsg | SendImage
  | SendFile | SendVoice | SendVideo | GetMessages | AllMessagesInChat | LoadMessagesInChat
  | SetWebhook | RemoveWebhook | ListSessions

record route =
  r_method :: http_method
  r_path :: "segment list"
  r_auth :: bool
  r_handler :: handler_id

text \<open>The \<open>app.get\<close>, \<open>app.post\<close> and \<open>app.delete\<close> registrations in the order of the
  file; \<open>r_auth\<close> says whether \<open>authenticate\<close> is passed before the handler.\<close>

definition routes :: "route list" where
  "routes =
    [\<lparr>r_method = GET, r_path = [], r_auth = False, r_handler = Root\<rparr>,
     \<lparr>r_method = GET, r_path = [Lit ''health''], r_auth = False, r_handler = Health\<rparr>,
     \<lparr>r_method = POST, r_path = [Lit ''api'', Param ''session'', Lit ''start-session''],
      r_auth = True, r_handler = StartSession\<rparr>,
     \<lparr>r_method = GET, r_path = [Lit ''api'', Param ''session'', Lit ''qrcode''],
      r_auth = True, r_handler = QrCode\<rparr>,
     \<lparr>r_method = GET, r_path = [Lit ''api'', Param ''session'', Lit ''status''],
      r_auth = True, r_handler = Status\<rparr>,
     \<lparr>r_method = POST, r_path = [Lit ''api'', Param ''session'', Lit ''logout''],
      r_auth = True, r_handler = LogoutSession\<rparr>,
     \<lparr>r_method = POST, r_path = [Lit ''api'', Param ''session'', Lit ''sendText''],
      r_auth = True, r_handler = SendTextMsg\<rparr>,
     \<lparr>r_method = POST, r_path = [Lit ''api'', Param ''session'', Lit ''send-image''],
      r_auth = True, r_handler = SendImage\<rparr>,
     \<lparr>r_method = POST, r_path = [Lit ''api'', Param ''session'', Lit ''send-file''],
      r_auth = True, r_handler = SendFile\<rparr>,
     \<lparr>r_method = POST, r_path = [Lit ''api'', Param ''session'', Lit ''send-voice''],
      r_auth = True, r_handler = SendVoice\<rparr>,
     \<lparr>r_method = POST, r_path = [Lit ''api'', Param ''session'', Lit ''send-video''],
      r_auth = True, r_handler = SendVideo\<rparr>,
     \<lparr>r_method = GET, r_path = [Lit ''api'', Param ''session'', Lit ''get-messages'', Param ''phone''],
      r_auth = True, r_handler = GetMessages\<rparr>,
     \<lparr>r_method = GET,
      r_path = [Lit ''api'', Param ''session'', Lit ''all-messages-in-chat'', Param ''phone''],
      r_auth = True, r_handler = AllMessagesInChat\<rparr>,
     \<lparr>r_method = GET,
      r_path = [Lit ''api'', Param ''session'', Lit ''load-messages-in-chat'', Param ''phone''],
      r_auth = True, r_handler = LoadMessagesInChat\<rparr>,
     \<lparr>r_method = POST, r_path = [Lit ''api'', Param ''session'', Lit ''webhook''],
      r_auth = True, r_handler = SetWebhook\<rparr>,
     \<lparr>r_method = DELETE, r_path = [Lit ''api'', Param ''session'', Lit ''webhook''],
      r_auth = True, r_handler = RemoveWebhook\<rparr>,
     \<lparr>r_method = GET, r_path = [Lit ''api'', Lit ''sessions''],
      r_auth = True, r_handler = ListSessions\<rparr>]"

text \<open>A request path is the list of its segments: \<open>[]\<close> for \<open>/\<close>, \<open>[''health'']\<close> for
  \<open>/health\<close>. A parameter matches any segment that is not empty.\<close>

fun matches :: "segment list \<Rightarrow> string list \<Rightarrow> bool" where
  "matches [] [] = True"
| "matches (Lit l # ps) (x # xs) = (l = x \<and> matches ps xs)"
| "matches (Param n # ps) (x # xs) = (x \<noteq> [] \<and> matches ps xs)"
| "matches ps xs = False"

record request =
  rq_method :: http_method
  rq_path :: "string list"
  rq_headers :: headers

text \<open>Handlers of \<open>/\<close> (lines 492-501) and \<open>/health\<close> (lines 503-515).\<close>

definition root_response :: "server \<Rightarrow> response" where
  "root_response s =
     \<lparr>code = 200,
      body = [(''status'', JStr ''online''), (''sessions'', JNum (card (dom (clients s)))),
              (''message'', JStr ''WPPConnect Server - Divus Legal''),
              (''timestamp'', JOpaque ''new Date().toISOString()''),
              (''node_version'', JOpaque ''process.version''),
              (''platform'', JOpaque ''process.platform'')]\<rparr>"

definition health_response :: "server \<Rightarrow> response" where
  "health_response s =
     \<lparr>code = 200,
      body = [(''status'', JStr ''healthy''), (''uptime'', JOpaque ''process.uptime()''),
              (''sessions'', JNum (card (dom (clients s)))),
              (''memory'', JOpaque ''process.memoryUsage()''),
              (''chromium_path'', JOpaque ''process.env.PUPPETEER_EXECUTABLE_PATH''),
              (''session_storage'', JOpaque ''SESSION_DIR'')]\<rparr>"

text \<open>What the router does with a request: it answers itself (the two open routes,
  or the 401 of \<open>authenticate\<close>), it hands the request to a session handler, or no
  route matches.\<close>

datatype served = Answered response | Handled handler_id | NotRouted

definition serve :: "string \<Rightarrow> server \<Rightarrow> request \<Rightarrow> served" where
  "serve API_KEY s rq =
     (case find (\<lambda>r. r_method r = rq_method rq \<and> matches (r_path r) (rq_path rq)) routes of
        None \<Rightarrow> NotRouted
      | Some r \<Rightarrow>
          (case (if r_auth r then authenticate API_KEY (rq_headers rq) else None) of
             Some unauthorized \<Rightarrow> Answered unauthorized
           | None \<Rightarrow>
               (if r_handler r = Root then Answered (root_response s)
                else if r_handler r = Health then Answered (health_response s)
                else Handled (r_handler r))))"

section \<open>Two start-session calls for one session id\<close>

text \<open>A first call without \<open>waitQrCode\<close> on the empty gateway, and a second call for the
  same id after the first engine has produced a QR code and before its creation
  promise has settled.\<close>

abbreviation first_start :: "response option \<times> server" where
  "first_start \<equiv> start_session initial ''acct1'' None False Never Never (\<lambda>t. [])"

abbreviation second_start :: "response option \<times> server" where
  "second_start \<equiv>
     start_session (apply_event (CatchQR 0 ''QR1'') (snd first_start)) ''acct1'' None False
       Never Never (\<lambda>t. [])"

section \<open>Conditions on the awaited engine calls\<close>

text \<open>The connectivity check of the status route fails: it throws, or it takes more
  than the 5000 ms of the timer (or for ever).\<close>

definition check_fails :: "bool outcome \<Rightarrow> bool" where
  "check_fails ic = (case ic of Rejects t err \<Rightarrow> True | Resolves t v \<Rightarrow> 5000 < t | Never \<Rightarrow> True)"

text \<open>The awaits of the logout handler come to an end: \<open>logout()\<close> is raced against the
  5000 ms timer, but \<open>close()\<close>, which is called once \<open>logout()\<close> has resolved in time, is
  awaited without a timer and has to settle by itself.\<close>

definition teardown_settles :: "unit outcome \<Rightarrow> unit outcome \<Rightarrow> bool" where
  "teardown_settles lo cl =
     (case race_timeout 5000 ''Logout timeout'' lo of Resolves t u \<Rightarrow> cl \<noteq> Never | _ \<Rightarrow> True)"

section \<open>Webhook dispatcher: properties\<close>

lemma attempt_body_fails:
  "delivery_fails (dest attempt) \<Longrightarrow>
   attempt_body dest session url payload retries attempt =
     ([Post url payload, failure_log session (dest attempt) attempt retries]
        @ (if attempt < retries then [Sleep (1000 * 2 ^ (attempt - 1))] else []), False)"
  by (cases "dest attempt")
     (simp_all add: attempt_body_def fetch_def delivery_fails_def failure_log_def)

lemma attempts_from_fail_step:
  "attempt \<le> retries \<Longrightarrow> delivery_fails (dest attempt) \<Longrightarrow>
   attempts_from dest session url payload retries attempt =
     [Post url payload, failure_log session (dest attempt) attempt retries]
       @ (if attempt < retries then [Sleep (1000 * 2 ^ (attempt - 1))] else [])
       @ attempts_from dest session url payload retries (Suc attempt)"
  by (subst attempts_from.simps) (simp add: attempt_body_fails)

lemma attempts_from_done:
  "retries < attempt \<Longrightarrow> attempts_from dest session url payload retries attempt = [LogPermanent session retries]"
  by (subst attempts_from.simps) simp

lemma failure_log_kind:
  "\<not> is_post (failure_log session out attempt retries)"
  "sleeps (failure_log session out attempt retries # es) = sleeps es"
  by (cases out; simp add: failure_log_def)+

lemma sleeps_append: "sleeps (xs @ ys) = sleeps xs @ sleeps ys"
  by (induction xs rule: sleeps.induct) simp_all

text \<open>For any number of retries: when every delivery fails, each attempt from
  \<open>attempt\<close> to \<open>retries\<close> is one POST, and the sleeps are \<open>1000 * 2^(a-1)\<close> for the
  attempts \<open>a\<close> before the last one.\<close>

lemma all_attempts_fail:
  "\<forall>k. delivery_fails (dest k) \<Longrightarrow> attempt \<le> Suc retries \<Longrightarrow>
     length (filter is_post (attempts_from dest session url payload retries attempt))
       = Suc retries - attempt
   \<and> sleeps (attempts_from dest session url payload retries attempt)
       = map (\<lambda>a. 1000 * 2 ^ (a - 1)) [attempt ..< retries]"
proof (induction dest session url payload retries attempt rule: attempts_from.induct)
  case (1 dest session url payload retries attempt)
  show ?case
  proof (cases "attempt \<le> retries")
    case True
    from "1.prems"(1) have f: "delivery_fails (dest attempt)" by blast
    from True have nxt: "Suc attempt \<le> Suc retries" by simp
    have ih: "length (filter is_post (attempts_from dest session url payload retries (Suc attempt)))
                = Suc retries - Suc attempt
            \<and> sleeps (attempts_from dest session url payload retries (Suc attempt))
                = map (\<lambda>a. 1000 * 2 ^ (a - 1)) [Suc attempt ..< retries]"
    proof (rule "1.IH" [OF True _ refl "1.prems"(1) nxt])
      show "([Post url payload, failure_log session (dest attempt) attempt retries]
               @ (if attempt < retries then [Sleep (1000 * 2 ^ (attempt - 1))] else []), False)
            = attempt_body dest session url payload retries attempt"
        using f by (simp add: attempt_body_fails)
    qed
    show ?thesis
    proof (cases "attempt < retries")
      case lt: True
      then show ?thesis
        using ih attempts_from_fail_step [of attempt retries dest session url payload] True f
        by (simp add: failure_log_kind upt_conv_Cons Suc_diff_Suc)
    next
      case False
      with True have "attempt = retries" by simp
      then show ?thesis
        using ih attempts_from_fail_step [of attempt retries dest session url payload] True f
        by (simp add: failure_log_kind)
    qed
  next
    case False
    with "1.prems"(2) have "attempt = Suc retries" by simp
    then show ?thesis by (simp add: attempts_from_done)
  qed
qed

text \<open>
  C2. When the session has a registered webhook URL and every delivery fails (a
  non-success HTTP status, a network error, or no answer within the 10 s of one
  attempt), \<open>sendToWebhook\<close> with the default \<open>retries = 3\<close> makes exactly three POSTs,
  sleeps 1000 ms after the first and 2000 ms after the second (\<open>1000 * 2^(attempt-1)\<close>),
  does not sleep after the third, logs the permanent failure and returns normally.
\<close>

theorem sendToWebhook_always_failing:
  assumes "webhooks s session = Some url" and "url \<noteq> []"
    and "\<forall>k. delivery_fails (dest k)"
  shows "sendToWebhook s dest session payload 3 =
           ([Post url payload, failure_log session (dest 1) 1 3, Sleep 1000,
             Post url payload, failure_log session (dest 2) 2 3, Sleep 2000,
             Post url payload, failure_log session (dest 3) 3 3,
             LogPermanent session 3], Inr ())"
proof -
  have f: "delivery_fails (dest 1)" "delivery_fails (dest 2)" "delivery_fails (dest 3)"
    using assms(3) by blast+
  have three: "attempts_from dest session url payload 3 3 =
      [Post url payload, failure_log session (dest 3) 3 3, LogPermanent session 3]"
    using attempts_from_fail_step [of 3 3 dest session url payload] f(3)
    by (simp add: attempts_from_done)
  have two: "attempts_from dest session url payload 3 2 =
      [Post url payload, failure_log session (dest 2) 2 3, Sleep 2000,
       Post url payload, failure_log session (dest 3) 3 3, LogPermanent session 3]"
    using attempts_from_fail_step [of 2 3 dest session url payload] f(2) three
    by (simp add: numeral_3_eq_3 numeral_2_eq_2)
  have one: "attempts_from dest session url payload 3 1 =
      [Post url payload, failure_log session (dest 1) 1 3, Sleep 1000,
       Post url payload, failure_log session (dest 2) 2 3, Sleep 2000,
       Post url payload, failure_log session (dest 3) 3 3, LogPermanent session 3]"
    using attempts_from_fail_step [of 1 3 dest session url payload] f(1) two
    by (simp add: numeral_2_eq_2)
  show ?thesis
    using assms(1,2) one by (simp add: sendToWebhook_def)
qed

theorem sendToWebhook_always_failing_witness:
  "sendToWebhook (initial\<lparr>webhooks := [''acct1'' \<mapsto> ''http://hook'']\<rparr>)
       (\<lambda>k. if k = 2 then NoAnswerIn10s else HttpStatus 500) ''acct1'' ''{}'' 3 =
     ([Post ''http://hook'' ''{}'', LogHttpError ''acct1'' 500 1 3, Sleep 1000,
       Post ''http://hook'' ''{}'', LogFailed ''acct1'' ''This operation was aborted'' 2 3, Sleep 2000,
       Post ''http://hook'' ''{}'', LogHttpError ''acct1'' 500 3 3,
       LogPermanent ''acct1'' 3], Inr ())"
  using sendToWebhook_always_failing
    [of "initial\<lparr>webhooks := [''acct1'' \<mapsto> ''http://hook'']\<rparr>" "''acct1''" "''http://hook''"
        "\<lambda>k. if k = 2 then NoAnswerIn10s else HttpStatus 500" "''{}''"]
  by (simp add: initial_def delivery_fails_def response_ok_def failure_log_def)

section \<open>Start-session on a session that is already known\<close>

text \<open>
  C5. When the registry holds a handle for the session id and \<open>isConnected()\<close> reports
  true, start-session answers at once with status \<open>connected\<close> and a null QR; when it
  reports false and a QR payload is cached, it answers with that payload and status
  \<open>qrcode\<close>. In both cases \<open>wppconnect.create\<close> is not called: the state only gains the
  \<open>isConnected\<close> call in its trace.
\<close>

theorem start_session_existing:
  "clients s session = Some client \<Longrightarrow>
     start_session s session webhook waitQrCode (Resolves t True) cl sched =
       (Some \<lparr>code = 200,
              body = [(''success'', JBool True),
                      (''message'', JStr ''Session already connected''),
                      (''status'', JStr ''connected''),
                      (''session'', JStr session), (''qrCode'', JNull)]\<rparr>,
        s\<lparr>calls := calls s @ [IsConnected client]\<rparr>)
   \<and> (qrCodes s session = Some qr \<longrightarrow>
        start_session s session webhook waitQrCode (Resolves t False) cl sched =
          (Some \<lparr>code = 200,
                 body = [(''success'', JBool True),
                         (''message'', JStr ''Session exists with QR code''),
                         (''status'', JStr ''qrcode''),
                         (''session'', JStr session), (''qrCode'', JStr qr)]\<rparr>,
           s\<lparr>calls := calls s @ [IsConnected client]\<rparr>))"
  by (simp add: start_session_def json_or_null_def)

theorem start_session_existing_witness:
  "start_session (initial\<lparr>clients := [''acct1'' \<mapsto> 0], qrCodes := [''acct1'' \<mapsto> ''QR1'']\<rparr>)
       ''acct1'' None True (Resolves 20 True) Never (\<lambda>t. []) =
     (Some \<lparr>code = 200,
            body = [(''success'', JBool True),
                    (''message'', JStr ''Session already connected''),
                    (''status'', JStr ''connected''),
                    (''session'', JStr ''acct1''), (''qrCode'', JNull)]\<rparr>,
      initial\<lparr>clients := [''acct1'' \<mapsto> 0], qrCodes := [''acct1'' \<mapsto> ''QR1''],
              calls := [IsConnected 0]\<rparr>)
   \<and> start_session (initial\<lparr>clients := [''acct1'' \<mapsto> 0], qrCodes := [''acct1'' \<mapsto> ''QR1'']\<rparr>)
       ''acct1'' None True (Resolves 20 False) Never (\<lambda>t. []) =
     (Some \<lparr>code = 200,
            body = [(''success'', JBool True),
                    (''message'', JStr ''Session exists with QR code''),
                    (''status'', JStr ''qrcode''),
                    (''session'', JStr ''acct1''), (''qrCode'', JStr ''QR1'')]\<rparr>,
      initial\<lparr>clients := [''acct1'' \<mapsto> 0], qrCodes := [''acct1'' \<mapsto> ''QR1''],
              calls := [IsConnected 0]\<rparr>)"
  using start_session_existing
    [of "initial\<lparr>clients := [''acct1'' \<mapsto> 0], qrCodes := [''acct1'' \<mapsto> ''QR1'']\<rparr>"
        "''acct1''" 0 None True 20 Never "\<lambda>t. []" "''QR1''"]
  by (simp add: initial_def)

section \<open>Guards of sendText\<close>

text \<open>
  C6. For a sendText request whose \<open>phone\<close> and \<open>message\<close> are both present: with no
  registry entry for the session the answer is 404 \<open>Session not found\<close> and no engine
  method is invoked (the state, with its call trace, is unchanged); with an entry whose
  \<open>isConnected()\<close> reports false the answer is 400 \<open>Session not connected\<close> and the only
  engine call is that check, so \<open>sendText\<close> is not invoked.
\<close>

theorem sendText_guards:
  "truthy phone \<Longrightarrow> truthy message \<Longrightarrow>
     (clients s session = None \<longrightarrow>
        sendText_route s session phone message ic st =
          (Some \<lparr>code = 404,
                 body = [(''success'', JBool False), (''error'', JStr ''Session not found'')]\<rparr>, s))
   \<and> (clients s session = Some client \<longrightarrow>
        sendText_route s session phone message (Resolves t False) st =
          (Some \<lparr>code = 400,
                 body = [(''success'', JBool False), (''error'', JStr ''Session not connected'')]\<rparr>,
           s\<lparr>calls := calls s @ [IsConnected client]\<rparr>))"
  by (simp add: sendText_route_def)

theorem sendText_guards_witness:
  "truthy (Some ''5511999'') \<and> truthy (Some ''hello'')
   \<and> sendText_route initial ''acct1'' (Some ''5511999'') (Some ''hello'')
        (Resolves 1 True) (Resolves 1 JNull) =
       (Some \<lparr>code = 404,
              body = [(''success'', JBool False), (''error'', JStr ''Session not found'')]\<rparr>, initial)
   \<and> sendText_route (initial\<lparr>clients := [''acct1'' \<mapsto> 0]\<rparr>) ''acct1'' (Some ''5511999'') (Some ''hello'')
        (Resolves 7 False) (Resolves 1 JNull) =
       (Some \<lparr>code = 400,
              body = [(''success'', JBool False), (''error'', JStr ''Session not connected'')]\<rparr>,
        initial\<lparr>clients := [''acct1'' \<mapsto> 0], calls := [IsConnected 0]\<rparr>)"
  using sendText_guards [of "Some ''5511999''" "Some ''hello''" initial "''acct1''"
                            "Resolves 1 True" "Resolves 1 JNull" 0 7]
        sendText_guards [of "Some ''5511999''" "Some ''hello''" "initial\<lparr>clients := [''acct1'' \<mapsto> 0]\<rparr>"
                            "''acct1''" "Resolves 7 False" "Resolves 1 JNull" 0 7]
  by (simp add: initial_def)

section \<open>Status query\<close>

text \<open>
  C7. A status query for a session id without registry entry answers
  \<open>{success: false, status: 'notLogged', session, connected: false}\<close>. With an entry
  whose connectivity check throws or takes longer than 5 seconds, the answer has
  status \<open>error\<close> and \<open>connected: false\<close>, and the registry, the QR cache and the engines
  are left as they were.
\<close>

theorem status_route_degrades:
  "(clients s session = None \<longrightarrow>
      status_route s session ic =
        (Some \<lparr>code = 200,
               body = [(''success'', JBool False), (''status'', JStr ''notLogged''),
                       (''session'', JStr session), (''connected'', JBool False)]\<rparr>, s))
   \<and> (clients s session = Some client \<and> check_fails ic \<longrightarrow>
        (\<exists>msg. fst (status_route s session ic) =
                  Some \<lparr>code = 200,
                        body = [(''success'', JBool False), (''status'', JStr ''error''),
                                (''error'', JStr msg), (''connected'', JBool False)]\<rparr>)
        \<and> clients (snd (status_route s session ic)) = clients s
        \<and> qrCodes (snd (status_route s session ic)) = qrCodes s
        \<and> engines (snd (status_route s session ic)) = engines s)"
  by (cases ic) (auto simp add: status_route_def check_fails_def)

theorem status_route_degrades_witness:
  "status_route initial ''unknown-id'' Never =
     (Some \<lparr>code = 200,
            body = [(''success'', JBool False), (''status'', JStr ''notLogged''),
                    (''session'', JStr ''unknown-id''), (''connected'', JBool False)]\<rparr>, initial)
   \<and> clients (initial\<lparr>clients := [''acct1'' \<mapsto> 0]\<rparr>) ''acct1'' = Some 0
   \<and> check_fails (Resolves 6000 True)
   \<and> fst (status_route (initial\<lparr>clients := [''acct1'' \<mapsto> 0]\<rparr>) ''acct1'' (Resolves 6000 True)) =
       Some \<lparr>code = 200,
             body = [(''success'', JBool False), (''status'', JStr ''error''),
                     (''error'', JStr ''Timeout''), (''connected'', JBool False)]\<rparr>
   \<and> clients (snd (status_route (initial\<lparr>clients := [''acct1'' \<mapsto> 0]\<rparr>) ''acct1'' (Resolves 6000 True)))
        ''acct1'' = Some 0"
  using status_route_degrades [of initial "''unknown-id''" Never 0]
        status_route_degrades [of "initial\<lparr>clients := [''acct1'' \<mapsto> 0]\<rparr>" "''acct1''" "Resolves 6000 True" 0]
  by (simp add: initial_def check_fails_def status_route_def)

section \<open>QR fetch when the connectivity check throws\<close>

text \<open>
  C9. When the handle's \<open>isConnected()\<close> throws during a qrcode fetch, the error is only
  logged: the route answers from the QR cache as read at the start of the request, 200
  with the payload and status \<open>qrcode\<close> when one is cached, 404 \<open>QR Code not available\<close>
  when none is, and in no case 500.
\<close>

theorem qrcode_route_swallows_check_error:
  "clients s session = Some client \<Longrightarrow>
     (qrCodes s session = Some qr \<and> qr \<noteq> [] \<longrightarrow>
        qrcode_route s session (Rejects t err) =
          (Some \<lparr>code = 200,
                 body = [(''success'', JBool True), (''session'', JStr session),
                         (''qrCode'', JStr qr), (''connected'', JBool False),
                         (''status'', JStr ''qrcode'')]\<rparr>,
           s\<lparr>calls := calls s @ [IsConnected client]\<rparr>))
   \<and> (qrCodes s session = None \<longrightarrow>
        qrcode_route s session (Rejects t err) =
          (Some \<lparr>code = 404,
                 body = [(''success'', JBool False), (''error'', JStr ''QR Code not available''),
                         (''message'', JStr ''Session may be connected or not started''),
                         (''connected'', JBool False)]\<rparr>,
           s\<lparr>calls := calls s @ [IsConnected client]\<rparr>))
   \<and> (\<exists>r. fst (qrcode_route s session (Rejects t err)) = Some r \<and> code r \<noteq> 500)"
  by (simp add: qrcode_route_def qr_answer_def json_or_null_def Let_def)

theorem qrcode_route_swallows_check_error_witness:
  "qrcode_route (initial\<lparr>clients := [''acct1'' \<mapsto> 0], qrCodes := [''acct1'' \<mapsto> ''QR1'']\<rparr>) ''acct1''
       (Rejects 3 ''Protocol error'') =
     (Some \<lparr>code = 200,
            body = [(''success'', JBool True), (''session'', JStr ''acct1''),
                    (''qrCode'', JStr ''QR1''), (''connected'', JBool False),
                    (''status'', JStr ''qrcode'')]\<rparr>,
      initial\<lparr>clients := [''acct1'' \<mapsto> 0], qrCodes := [''acct1'' \<mapsto> ''QR1''],
              calls := [IsConnected 0]\<rparr>)
   \<and> qrcode_route (initial\<lparr>clients := [''acct1'' \<mapsto> 0]\<rparr>) ''acct1'' (Rejects 3 ''Protocol error'') =
     (Some \<lparr>code = 404,
            body = [(''success'', JBool False), (''error'', JStr ''QR Code not available''),
                    (''message'', JStr ''Session may be connected or not started''),
                    (''connected'', JBool False)]\<rparr>,
      initial\<lparr>clients := [''acct1'' \<mapsto> 0], calls := [IsConnected 0]\<rparr>)"
  using qrcode_route_swallows_check_error
          [of "initial\<lparr>clients := [''acct1'' \<mapsto> 0], qrCodes := [''acct1'' \<mapsto> ''QR1'']\<rparr>"
              "''acct1''" 0 "''QR1''" 3 "''Protocol error''"]
        qrcode_route_swallows_check_error
          [of "initial\<lparr>clients := [''acct1'' \<mapsto> 0]\<rparr>" "''acct1''" 0 "''QR1''" 3 "''Protocol error''"]
  by (simp add: initial_def)

section \<open>Logout\<close>

lemma forget_absent:
  "clients (forget session s) session = None \<and> qrCodes (forget session s) session = None"
  by (simp add: forget_def)

text \<open>
  C3 (as amended). A logout of a session id that is in the registry removes the id
  from the client registry and from the QR cache whenever the awaits of the handler
  come to an end: \<open>logout()\<close> succeeds, throws or exceeds its 5 s timer, and \<open>close()\<close>,
  awaited without a timer once \<open>logout()\<close> has resolved in time, succeeds or throws;
  whatever the engines did while the handler was suspended, a status query that
  follows reports \<open>notLogged\<close>. When \<open>logout()\<close> resolves in time and \<open>close()\<close> never
  settles, the handler sends no response and deletes nothing: the state is the one the
  two engine calls and the events of the meantime have left.
\<close>

theorem logout_removes_when_teardown_settles:
  "clients s session = Some client \<Longrightarrow>
     (teardown_settles lo cl \<longrightarrow>
        fst (logout_route s session lo cl during) \<noteq> None
      \<and> clients (snd (logout_route s session lo cl during)) session = None
      \<and> qrCodes (snd (logout_route s session lo cl during)) session = None
      \<and> fst (status_route (snd (logout_route s session lo cl during)) session ic) =
          Some \<lparr>code = 200,
                body = [(''success'', JBool False), (''status'', JStr ''notLogged''),
                        (''session'', JStr session), (''connected'', JBool False)]\<rparr>)
   \<and> (\<not> teardown_settles lo cl \<longrightarrow>
        logout_route s session lo cl during =
          (None, apply_events during (s\<lparr>calls := calls s @ [Logout client, Close client]\<rparr>)))"
  by (cases lo; cases cl)
     (auto simp add: logout_route_def teardown_settles_def forget_absent status_route_def
           split: if_splits)

theorem logout_removes_when_teardown_settles_witness:
  "clients (initial\<lparr>clients := [''acct1'' \<mapsto> 0], qrCodes := [''acct1'' \<mapsto> ''QR1'']\<rparr>) ''acct1'' = Some 0
   \<and> teardown_settles (Resolves 6000 ()) Never
   \<and> logout_route (initial\<lparr>clients := [''acct1'' \<mapsto> 0], qrCodes := [''acct1'' \<mapsto> ''QR1'']\<rparr>)
        ''acct1'' (Resolves 6000 ()) Never [] =
       (Some \<lparr>code = 500, body = [(''success'', JBool False), (''error'', JStr ''Logout timeout'')]\<rparr>,
        initial\<lparr>calls := [Logout 0]\<rparr>)
   \<and> fst (status_route (snd (logout_route
          (initial\<lparr>clients := [''acct1'' \<mapsto> 0], qrCodes := [''acct1'' \<mapsto> ''QR1'']\<rparr>)
          ''acct1'' (Resolves 6000 ()) Never [])) ''acct1'' (Resolves 1 True)) =
       Some \<lparr>code = 200,
             body = [(''success'', JBool False), (''status'', JStr ''notLogged''),
                     (''session'', JStr ''acct1''), (''connected'', JBool False)]\<rparr>
   \<and> teardown_settles (Resolves 10 ()) (Rejects 40 ''Target closed'')
   \<and> logout_route (initial\<lparr>clients := [''acct1'' \<mapsto> 0], qrCodes := [''acct1'' \<mapsto> ''QR1'']\<rparr>)
        ''acct1'' (Resolves 10 ()) (Rejects 40 ''Target closed'') [] =
       (Some \<lparr>code = 500, body = [(''success'', JBool False), (''error'', JStr ''Target closed'')]\<rparr>,
        initial\<lparr>calls := [Logout 0, Close 0]\<rparr>)
   \<and> \<not> teardown_settles (Resolves 5000 ()) Never
   \<and> logout_route (initial\<lparr>clients := [''acct1'' \<mapsto> 0], qrCodes := [''acct1'' \<mapsto> ''QR1'']\<rparr>)
        ''acct1'' (Resolves 5000 ()) Never [] =
       (None, initial\<lparr>clients := [''acct1'' \<mapsto> 0], qrCodes := [''acct1'' \<mapsto> ''QR1''],
                      calls := [Logout 0, Close 0]\<rparr>)"
  using logout_removes_when_teardown_settles
          [of "initial\<lparr>clients := [''acct1'' \<mapsto> 0], qrCodes := [''acct1'' \<mapsto> ''QR1'']\<rparr>"
              "''acct1''" 0 "Resolves 6000 ()" Never "[]" "Resolves 1 True"]
        logout_removes_when_teardown_settles
          [of "initial\<lparr>clients := [''acct1'' \<mapsto> 0], qrCodes := [''acct1'' \<mapsto> ''QR1'']\<rparr>"
              "''acct1''" 0 "Resolves 10 ()" "Rejects 40 ''Target closed''" "[]" "Resolves 1 True"]
        logout_removes_when_teardown_settles
          [of "initial\<lparr>clients := [''acct1'' \<mapsto> 0], qrCodes := [''acct1'' \<mapsto> ''QR1'']\<rparr>"
              "''acct1''" 0 "Resolves 5000 ()" Never "[]" "Resolves 1 True"]
  by (simp add: initial_def teardown_settles_def logout_route_def forget_def)

text \<open>
  C3 as stated fails: when \<open>logout()\<close> of the registered session \<open>acct1\<close> resolves after
  10 ms and \<open>close()\<close> never settles, the handler sends no response, \<open>acct1\<close> stays in the
  registry and in the QR cache, and a status query that follows reports \<open>connected\<close>.
\<close>

theorem logout_hangs_when_close_never_settles:
  "logout_route (initial\<lparr>clients := [''acct1'' \<mapsto> 0], qrCodes := [''acct1'' \<mapsto> ''QR1'']\<rparr>)
       ''acct1'' (Resolves 10 ()) Never [] =
     (None, initial\<lparr>clients := [''acct1'' \<mapsto> 0], qrCodes := [''acct1'' \<mapsto> ''QR1''],
                    calls := [Logout 0, Close 0]\<rparr>)
   \<and> clients (snd (logout_route
          (initial\<lparr>clients := [''acct1'' \<mapsto> 0], qrCodes := [''acct1'' \<mapsto> ''QR1'']\<rparr>)
          ''acct1'' (Resolves 10 ()) Never [])) ''acct1'' = Some 0
   \<and> qrCodes (snd (logout_route
          (initial\<lparr>clients := [''acct1'' \<mapsto> 0], qrCodes := [''acct1'' \<mapsto> ''QR1'']\<rparr>)
          ''acct1'' (Resolves 10 ()) Never [])) ''acct1'' = Some ''QR1''
   \<and> fst (status_route (snd (logout_route
          (initial\<lparr>clients := [''acct1'' \<mapsto> 0], qrCodes := [''acct1'' \<mapsto> ''QR1'']\<rparr>)
          ''acct1'' (Resolves 10 ()) Never [])) ''acct1'' (Resolves 1 True)) =
       Some \<lparr>code = 200,
             body = [(''success'', JBool True), (''session'', JStr ''acct1''),
                     (''status'', JStr ''connected''), (''connected'', JBool True)]\<rparr>"
  by (simp add: initial_def logout_route_def status_route_def)

section \<open>The open routes\<close>

lemma matches_Nil: "matches [] p = (p = [])"
  by (cases p) simp_all

lemma matches_health: "matches [Lit ''health''] p = (p = [''health''])"
  by (cases p; cases "tl p") auto

lemma open_route_paths:
  "r \<in> set routes \<Longrightarrow> \<not> r_auth r \<Longrightarrow> matches (r_path r) p \<Longrightarrow> p = [] \<or> p = [''health'']"
  by (auto simp add: routes_def matches_Nil matches_health)

lemma guarded_request:
  assumes "authenticate API_KEY (rq_headers rq) \<noteq> None"
    and "rq_path rq \<noteq> []" and "rq_path rq \<noteq> [''health'']"
  shows "serve API_KEY s rq = NotRouted
       \<or> serve API_KEY s rq = Answered \<lparr>code = 401, body = [(''error'', JStr ''Unauthorized'')]\<rparr>"
proof (cases "find (\<lambda>r. r_method r = rq_method rq \<and> matches (r_path r) (rq_path rq)) routes")
  case None
  then show ?thesis by (simp add: serve_def)
next
  case (Some r)
  then have "r \<in> set routes" and "matches (r_path r) (rq_path rq)"
    by (auto simp add: find_Some_iff)
  with assms(2,3) have "r_auth r"
    using open_route_paths by blast
  moreover from assms(1) have "authenticate API_KEY (rq_headers rq) =
      Some \<lparr>code = 401, body = [(''error'', JStr ''Unauthorized'')]\<rparr>"
    by (auto simp add: authenticate_def split: if_splits)
  ultimately show ?thesis using Some by (simp add: serve_def)
qed

text \<open>
  C10. \<open>GET /\<close> and \<open>GET /health\<close> answer 200 with a JSON body that carries a \<open>status\<close>
  field, whatever the request's headers are: they are the two routes registered
  without \<open>authenticate\<close>. Every other registered route passes \<open>authenticate\<close> first, so
  that a request for any other path whose credential is missing or wrong is answered
  401 (or matches no route) and reaches no handler.
\<close>

theorem open_routes:
  "serve API_KEY s \<lparr>rq_method = GET, rq_path = [], rq_headers = h\<rparr> = Answered (root_response s)
   \<and> code (root_response s) = 200
   \<and> map_of (body (root_response s)) ''status'' = Some (JStr ''online'')
   \<and> serve API_KEY s \<lparr>rq_method = GET, rq_path = [''health''], rq_headers = h\<rparr>
        = Answered (health_response s)
   \<and> code (health_response s) = 200
   \<and> map_of (body (health_response s)) ''status'' = Some (JStr ''healthy'')
   \<and> (\<forall>r \<in> set routes. r_auth r = (r_handler r \<noteq> Root \<and> r_handler r \<noteq> Health))
   \<and> (\<forall>rq. authenticate API_KEY (rq_headers rq) \<noteq> None \<and> rq_path rq \<noteq> []
             \<and> rq_path rq \<noteq> [''health''] \<longrightarrow>
           serve API_KEY s rq = NotRouted
         \<or> serve API_KEY s rq = Answered \<lparr>code = 401, body = [(''error'', JStr ''Unauthorized'')]\<rparr>)"
proof -
  have "serve API_KEY s \<lparr>rq_method = GET, rq_path = [], rq_headers = h\<rparr> = Answered (root_response s)"
    by (simp add: serve_def routes_def)
  moreover have "serve API_KEY s \<lparr>rq_method = GET, rq_path = [''health''], rq_headers = h\<rparr>
        = Answered (health_response s)"
    by (simp add: serve_def routes_def)
  moreover have "\<forall>r \<in> set routes. r_auth r = (r_handler r \<noteq> Root \<and> r_handler r \<noteq> Health)"
    by (simp add: routes_def)
  ultimately show ?thesis
    using guarded_request by (simp add: root_response_def health_response_def)
qed

theorem open_routes_witness:
  "serve ''secret'' initial \<lparr>rq_method = GET, rq_path = [],
       rq_headers = \<lparr>authorization = None, x_api_key = None\<rparr>\<rparr> = Answered (root_response initial)
   \<and> serve ''secret'' initial \<lparr>rq_method = GET, rq_path = [''health''],
       rq_headers = \<lparr>authorization = Some ''Bearer wrong'', x_api_key = None\<rparr>\<rparr>
       = Answered (health_response initial)
   \<and> r_auth \<lparr>r_method = GET, r_path = [Lit ''api'', Param ''session'', Lit ''status''],
              r_auth = True, r_handler = Status\<rparr>
   \<and> authenticate ''secret'' \<lparr>authorization = Some ''Bearer wrong'', x_api_key = None\<rparr> \<noteq> None
   \<and> serve ''secret'' initial \<lparr>rq_method = GET, rq_path = [''api'', ''acct1'', ''status''],
       rq_headers = \<lparr>authorization = Some ''Bearer wrong'', x_api_key = None\<rparr>\<rparr>
       = Answered \<lparr>code = 401, body = [(''error'', JStr ''Unauthorized'')]\<rparr>
   \<and> serve ''secret'' initial \<lparr>rq_method = GET, rq_path = [''api'', ''acct1'', ''status''],
       rq_headers = \<lparr>authorization = Some ''Bearer secret'', x_api_key = None\<rparr>\<rparr>
       = Handled Status"
proof -
  let ?bad = "\<lparr>authorization = Some ''Bearer wrong'', x_api_key = None\<rparr>"
  let ?rq = "\<lparr>rq_method = GET, rq_path = [''api'', ''acct1'', ''status''], rq_headers = ?bad\<rparr>"
  note open_at = open_routes [of "''secret''" initial ?bad]
  have a: "authenticate ''secret'' ?bad \<noteq> None"
    by (simp add: authenticate_def request_key_def)
  have r: "serve ''secret'' initial ?rq \<noteq> NotRouted"
    by (simp add: serve_def routes_def authenticate_def request_key_def)
  have "authenticate ''secret'' (rq_headers ?rq) \<noteq> None \<and> rq_path ?rq \<noteq> []
          \<and> rq_path ?rq \<noteq> [''health''] \<longrightarrow>
        serve ''secret'' initial ?rq = NotRouted
      \<or> serve ''secret'' initial ?rq = Answered \<lparr>code = 401, body = [(''error'', JStr ''Unauthorized'')]\<rparr>"
    using open_at by blast
  with a r have u: "serve ''secret'' initial ?rq
      = Answered \<lparr>code = 401, body = [(''error'', JStr ''Unauthorized'')]\<rparr>"
    by simp
  have ok: "serve ''secret'' initial \<lparr>rq_method = GET, rq_path = [''api'', ''acct1'', ''status''],
       rq_headers = \<lparr>authorization = Some ''Bearer secret'', x_api_key = None\<rparr>\<rparr> = Handled Status"
    by (simp add: serve_def routes_def authenticate_def request_key_def)
  show ?thesis
    using open_routes [of "''secret''" initial "\<lparr>authorization = None, x_api_key = None\<rparr>"]
          open_at a u ok
    by simp
qed

section \<open>Engine events and the QR wait: auxiliary facts\<close>

lemma length_set_local: "length (engines (set_local eid f s)) = length (engines s)"
  by (simp add: set_local_def)

lemma engines_set_local:
  "i < length (engines s) \<Longrightarrow>
   engines (set_local eid f s) ! i = (if i = eid then f (engines s ! eid) else engines s ! i)"
  by (simp add: set_local_def)

lemma maps_set_local:
  "clients (set_local eid f s) = clients s" "qrCodes (set_local eid f s) = qrCodes s"
  "webhooks (set_local eid f s) = webhooks s" "calls (set_local eid f s) = calls s"
  by (simp_all add: set_local_def)

lemma length_apply_event: "length (engines (apply_event e s)) = length (engines s)"
  by (cases e)
     (simp_all add: catchQR_def statusFind_def create_then_def create_catch_def
        length_set_local Let_def)

lemma length_apply_events: "length (engines (apply_events es s)) = length (engines s)"
  by (induction es arbitrary: s) (simp_all add: length_apply_event)

lemma session_apply_event:
  "i < length (engines s) \<Longrightarrow> c_session (engines (apply_event e s) ! i) = c_session (engines s ! i)"
  by (cases e)
     (simp_all add: catchQR_def statusFind_def create_then_def create_catch_def
        engines_set_local Let_def)

lemma session_apply_events:
  "i < length (engines s) \<Longrightarrow> c_session (engines (apply_events es s) ! i) = c_session (engines s ! i)"
  by (induction es arbitrary: s) (simp_all add: length_apply_event session_apply_event)

lemma calls_apply_event: "calls (apply_event e s) = calls s"
  by (cases e)
     (simp_all add: catchQR_def statusFind_def create_then_def create_catch_def
        maps_set_local Let_def)

lemma calls_apply_events: "calls (apply_events es s) = calls s"
  by (induction es arbitrary: s) (simp_all add: calls_apply_event)

lemma qr_wait_continue:
  "waiting eid s \<Longrightarrow> elapsed < 30000 \<Longrightarrow>
   qr_wait sched eid elapsed s = qr_wait sched eid (elapsed + 500) (apply_events (sched elapsed) s)"
  by (subst qr_wait.simps) simp

lemma qr_wait_stop:
  "\<not> (waiting eid s \<and> elapsed < 30000) \<Longrightarrow> qr_wait sched eid elapsed s = (elapsed, s)"
  by (subst qr_wait.simps) auto

lemma qr_wait_length: "length (engines (snd (qr_wait sched eid t s))) = length (engines s)"
proof (induction sched eid t s rule: qr_wait.induct)
  case (1 sched eid elapsed s)
  show ?case
  proof (cases "waiting eid s \<and> elapsed < 30000")
    case True
    with 1 show ?thesis by (simp add: qr_wait_continue length_apply_events)
  next
    case False
    then show ?thesis by (simp add: qr_wait_stop)
  qed
qed

lemma qr_wait_session:
  "i < length (engines s) \<Longrightarrow>
   c_session (engines (snd (qr_wait sched eid t s)) ! i) = c_session (engines s ! i)"
proof (induction sched eid t s rule: qr_wait.induct)
  case (1 sched eid elapsed s)
  show ?case
  proof (cases "waiting eid s \<and> elapsed < 30000")
    case True
    with 1 show ?thesis
      by (simp add: qr_wait_continue length_apply_events session_apply_events)
  next
    case False
    then show ?thesis by (simp add: qr_wait_stop)
  qed
qed

lemma qr_wait_calls: "calls (snd (qr_wait sched eid t s)) = calls s"
proof (induction sched eid t s rule: qr_wait.induct)
  case (1 sched eid elapsed s)
  show ?case
  proof (cases "waiting eid s \<and> elapsed < 30000")
    case True
    with 1 show ?thesis by (simp add: qr_wait_continue calls_apply_events)
  next
    case False
    then show ?thesis by (simp add: qr_wait_stop)
  qed
qed

lemma qr_wait_steps:
  "t \<le> 30000 \<Longrightarrow> 500 dvd t \<Longrightarrow>
   fst (qr_wait sched eid t s) \<le> 30000 \<and> 500 dvd fst (qr_wait sched eid t s)"
proof (induction sched eid t s rule: qr_wait.induct)
  case (1 sched eid elapsed s)
  show ?case
  proof (cases "waiting eid s \<and> elapsed < 30000")
    case True
    from True "1.prems" have "elapsed + 500 \<le> 30000"
      by (elim dvdE) simp
    moreover from "1.prems" have "500 dvd elapsed + 500" by simp
    ultimately show ?thesis
      using True "1.IH" by (simp add: qr_wait_continue)
  next
    case False
    with "1.prems" show ?thesis by (simp add: qr_wait_stop)
  qed
qed

lemma qr_wait_exit:
  "waiting eid (snd (qr_wait sched eid t s)) \<Longrightarrow> 30000 \<le> fst (qr_wait sched eid t s)"
proof (induction sched eid t s rule: qr_wait.induct)
  case (1 sched eid elapsed s)
  show ?case
  proof (cases "waiting eid s \<and> elapsed < 30000")
    case True
    with 1 show ?thesis by (simp add: qr_wait_continue)
  next
    case False
    with "1.prems" show ?thesis by (simp add: qr_wait_stop)
  qed
qed

lemma qr_wait_idle: "snd (qr_wait (\<lambda>t. []) eid t s) = s"
proof (induction "\<lambda>t::nat. []::event list" eid t s rule: qr_wait.induct)
  case (1 eid elapsed s)
  show ?case
  proof (cases "waiting eid s \<and> elapsed < 30000")
    case True
    with 1 show ?thesis by (simp add: qr_wait_continue)
  next
    case False
    then show ?thesis by (simp add: qr_wait_stop)
  qed
qed

text \<open>The loop tests its condition every 500 ms: it returns at the first test at which
  the QR code or the creation error is there, and at the 60th sleep's end otherwise.\<close>

lemma qr_wait_polls:
  "i \<le> 60 \<Longrightarrow>
   \<exists>k. i \<le> k \<and> k \<le> 60
     \<and> qr_wait sched eid (500 * i) (state_after sched i s) = (500 * k, state_after sched k s)
     \<and> (\<forall>j. i \<le> j \<and> j < k \<longrightarrow> waiting eid (state_after sched j s))
     \<and> (k < 60 \<longrightarrow> \<not> waiting eid (state_after sched k s))"
proof (induction "60 - i" arbitrary: i)
  case 0
  then have "i = 60" by simp
  then have "qr_wait sched eid (500 * i) (state_after sched i s) = (500 * i, state_after sched i s)"
    by (simp add: qr_wait_stop)
  with \<open>i = 60\<close> show ?case by auto
next
  case (Suc n)
  then have lt: "i < 60" by simp
  show ?case
  proof (cases "waiting eid (state_after sched i s)")
    case False
    then have "qr_wait sched eid (500 * i) (state_after sched i s) = (500 * i, state_after sched i s)"
      by (simp add: qr_wait_stop)
    with False Suc.prems show ?thesis by auto
  next
    case True
    from lt have "500 * i < 30000" by simp
    with True have step: "qr_wait sched eid (500 * i) (state_after sched i s)
        = qr_wait sched eid (500 * Suc i) (state_after sched (Suc i) s)"
      by (simp add: qr_wait_continue add.commute)
    from Suc.hyps(2) lt have "n = 60 - Suc i" by simp
    moreover from lt have "Suc i \<le> 60" by simp
    ultimately obtain k where k: "Suc i \<le> k" "k \<le> 60"
      "qr_wait sched eid (500 * Suc i) (state_after sched (Suc i) s) = (500 * k, state_after sched k s)"
      "\<forall>j. Suc i \<le> j \<and> j < k \<longrightarrow> waiting eid (state_after sched j s)"
      "k < 60 \<longrightarrow> \<not> waiting eid (state_after sched k s)"
      using Suc.hyps(1) by blast
    have "\<forall>j. i \<le> j \<and> j < k \<longrightarrow> waiting eid (state_after sched j s)"
    proof (intro allI impI)
      fix j assume "i \<le> j \<and> j < k"
      then have "j = i \<or> (Suc i \<le> j \<and> j < k)" by auto
      with True k(4) show "waiting eid (state_after sched j s)" by blast
    qed
    with k step show ?thesis
      by (intro exI [of _ k]) simp
  qed
qed

lemma prepare_engines:
  "engines (prepare s session webhook) = engines s @
     [\<lparr>c_session = session, qrCode = None, sessionStatus = ''initializing'',
       clientCreated = False, createError = None, promise = Pending\<rparr>]"
  by (simp add: prepare_def launch_def Let_def)

lemma prepare_maps:
  "clients (prepare s session webhook) = clients s" "qrCodes (prepare s session webhook) = qrCodes s"
  "calls (prepare s session webhook) = calls s"
  by (simp_all add: prepare_def launch_def Let_def)

lemma forget_fields:
  "engines (forget session s) = engines s" "calls (forget session s) = calls s"
  "clients (forget session s) session = None" "qrCodes (forget session s) session = None"
  by (simp_all add: forget_def)

lemma create_session_length:
  "length (engines (snd (create_session s session webhook w sched))) = Suc (length (engines s))"
  by (simp add: create_session_def Let_def start_failed_def forget_fields qr_wait_length
        prepare_engines)

lemma create_session_owner:
  "c_session (engines (snd (create_session s session webhook w sched)) ! length (engines s)) = session"
  by (simp add: create_session_def Let_def start_failed_def forget_fields qr_wait_session
        prepare_engines)

lemma create_then_registers:
  "eid < length (engines s) \<Longrightarrow> promise (engines s ! eid) = Pending \<Longrightarrow>
   clients (apply_event (CreateResolves eid) s) (c_session (engines s ! eid)) = Some eid"
  by (simp add: create_then_def maps_set_local Let_def)

lemma registry_grows_only_on_resolve:
  "clients s session = None \<Longrightarrow> clients (apply_event e s) session \<noteq> None \<Longrightarrow>
   \<exists>eid. e = CreateResolves eid"
  by (cases e)
     (auto simp add: catchQR_def statusFind_def create_catch_def maps_set_local Let_def
           split: if_splits)

section \<open>The status callback and the QR cache\<close>

text \<open>
  C4 (as amended). When the status callback of an engine reports \<open>authenticated\<close> or
  \<open>isLogged\<close>, the transient status of that start-session call becomes \<open>connected\<close> and
  the QR payload cached for the session id is deleted, so that the next qrcode fetch
  for the id carries no QR payload: it answers "already connected" with a null QR, or
  404, or (when \<open>isConnected()\<close> never settles) nothing. Any other status reported by
  the engine replaces the transient status and leaves the QR cache as it is.
\<close>

theorem statusFind_clears_qr:
  "eid < length (engines s) \<Longrightarrow>
     (status = ''authenticated'' \<or> status = ''isLogged'' \<longrightarrow>
        sessionStatus (engines (apply_event (StatusFind eid status) s) ! eid) = ''connected''
      \<and> qrCodes (apply_event (StatusFind eid status) s) (c_session (engines s ! eid)) = None
      \<and> fst (qrcode_route (apply_event (StatusFind eid status) s) (c_session (engines s ! eid)) ic)
          \<in> {None,
              Some \<lparr>code = 200,
                    body = [(''success'', JBool True), (''session'', JStr (c_session (engines s ! eid))),
                            (''connected'', JBool True), (''status'', JStr ''connected''),
                            (''qrCode'', JNull),
                            (''message'', JStr ''Session already connected'')]\<rparr>,
              Some \<lparr>code = 404,
                    body = [(''success'', JBool False), (''error'', JStr ''QR Code not available''),
                            (''message'', JStr ''Session may be connected or not started''),
                            (''connected'', JBool False)]\<rparr>})
   \<and> (status \<noteq> ''authenticated'' \<and> status \<noteq> ''isLogged'' \<longrightarrow>
        sessionStatus (engines (apply_event (StatusFind eid status) s) ! eid) = status
      \<and> qrCodes (apply_event (StatusFind eid status) s) = qrCodes s)"
proof (intro conjI impI)
  assume eid: "eid < length (engines s)"
  let ?session = "c_session (engines s ! eid)"
  {
    assume st: "status = ''authenticated'' \<or> status = ''isLogged''"
    let ?s' = "apply_event (StatusFind eid status) s"
    from eid st show "sessionStatus (engines ?s' ! eid) = ''connected''"
      by (auto simp add: statusFind_def engines_set_local Let_def)
    from eid st show no_qr: "qrCodes ?s' ?session = None"
      by (auto simp add: statusFind_def maps_set_local Let_def)
    show "fst (qrcode_route ?s' ?session ic)
          \<in> {None,
              Some \<lparr>code = 200,
                    body = [(''success'', JBool True), (''session'', JStr ?session),
                            (''connected'', JBool True), (''status'', JStr ''connected''),
                            (''qrCode'', JNull),
                            (''message'', JStr ''Session already connected'')]\<rparr>,
              Some \<lparr>code = 404,
                    body = [(''success'', JBool False), (''error'', JStr ''QR Code not available''),
                            (''message'', JStr ''Session may be connected or not started''),
                            (''connected'', JBool False)]\<rparr>}"
      using no_qr
      by (cases "clients ?s' ?session"; cases ic)
         (simp_all add: qrcode_route_def qr_answer_def Let_def del: apply_event.simps)
  }
  {
    assume "status \<noteq> ''authenticated'' \<and> status \<noteq> ''isLogged''"
    with eid show "sessionStatus (engines (apply_event (StatusFind eid status) s) ! eid) = status"
      and "qrCodes (apply_event (StatusFind eid status) s) = qrCodes s"
      by (simp_all add: statusFind_def engines_set_local maps_set_local Let_def)
  }
qed

theorem statusFind_clears_qr_witness:
  "(0::nat) < length (engines (apply_event (CatchQR 0 ''QR1'') (launch ''acct1'' initial)))
   \<and> qrCodes (apply_event (CatchQR 0 ''QR1'') (launch ''acct1'' initial)) ''acct1'' = Some ''QR1''
   \<and> sessionStatus (engines (apply_event (StatusFind 0 ''isLogged'')
        (apply_event (CatchQR 0 ''QR1'') (launch ''acct1'' initial))) ! 0) = ''connected''
   \<and> qrCodes (apply_event (StatusFind 0 ''isLogged'')
        (apply_event (CatchQR 0 ''QR1'') (launch ''acct1'' initial))) ''acct1'' = None
   \<and> fst (qrcode_route (apply_event (StatusFind 0 ''isLogged'')
        (apply_event (CatchQR 0 ''QR1'') (launch ''acct1'' initial))) ''acct1'' Never) =
       Some \<lparr>code = 404,
             body = [(''success'', JBool False), (''error'', JStr ''QR Code not available''),
                     (''message'', JStr ''Session may be connected or not started''),
                     (''connected'', JBool False)]\<rparr>
   \<and> sessionStatus (engines (apply_event (StatusFind 0 ''notLogged'')
        (apply_event (CatchQR 0 ''QR1'') (launch ''acct1'' initial))) ! 0) = ''notLogged''"
  using statusFind_clears_qr
          [of 0 "apply_event (CatchQR 0 ''QR1'') (launch ''acct1'' initial)" "''isLogged''" Never]
        statusFind_clears_qr
          [of 0 "apply_event (CatchQR 0 ''QR1'') (launch ''acct1'' initial)" "''notLogged''" Never]
  by (simp add: launch_def initial_def catchQR_def statusFind_def set_local_def qrcode_route_def
        qr_answer_def)

text \<open>
  C4 as stated also says that a QR payload exists only while the status is \<open>qrcode\<close>.
  After \<open>catchQR\<close> and then \<open>statusFind('qrReadSuccess')\<close> the payload is still cached
  while the transient status is \<open>qrReadSuccess\<close>, and a start-session call that waits
  for the QR returns both.
\<close>

theorem qr_cached_with_other_status:
  "qrCodes (apply_events [CatchQR 0 ''QR1'', StatusFind 0 ''qrReadSuccess'']
             (launch ''acct1'' initial)) ''acct1'' = Some ''QR1''
   \<and> sessionStatus (engines (apply_events [CatchQR 0 ''QR1'', StatusFind 0 ''qrReadSuccess'']
             (launch ''acct1'' initial)) ! 0) = ''qrReadSuccess''
   \<and> fst (start_session initial ''acct1'' None True Never Never
            (\<lambda>t. if t = 0 then [CatchQR 0 ''QR1'', StatusFind 0 ''qrReadSuccess''] else [])) =
       Some \<lparr>code = 200,
             body = [(''success'', JBool True), (''session'', JStr ''acct1''),
                     (''qrCode'', JStr ''QR1''), (''status'', JStr ''qrReadSuccess''),
                     (''message'', JStr ''QR Code ready - scan to connect''),
                     (''webhook'', JNull)]\<rparr>"
  by (simp add: launch_def initial_def catchQR_def statusFind_def set_local_def start_session_def
        create_session_def prepare_def qr_wait.simps waiting_def json_or_null_def)

section \<open>The duplicate-creation guard\<close>

text \<open>
  C1 (as amended). A start-session call launches no engine when the registry holds a
  handle for the id that reports connected, or that reports not connected while a QR
  is cached. When the registry holds no handle for the id the call launches a new
  engine for it, whatever creations are in flight; the call itself does not put the
  new engine into the registry (its creation stays pending), and the registry gains an
  entry only when a creation promise resolves.
\<close>

theorem start_session_guard_reads_registry:
  "(clients s session = Some client
      \<and> (ic = Resolves t True \<or> ic = Resolves t False \<and> qrCodes s session \<noteq> None) \<longrightarrow>
        engines (snd (start_session s session webhook waitQrCode ic cl sched)) = engines s)
   \<and> (clients s session = None \<longrightarrow>
        length (engines (snd (start_session s session webhook waitQrCode ic cl sched)))
          = Suc (length (engines s))
      \<and> c_session (engines (snd (start_session s session webhook waitQrCode ic cl sched))
           ! length (engines s)) = session)
   \<and> (clients s session = None \<longrightarrow>
        clients (snd (start_session s session webhook False ic cl sched)) session = None
      \<and> promise (engines (snd (start_session s session webhook False ic cl sched))
           ! length (engines s)) = Pending)
   \<and> (clients s session = None \<and> clients (apply_event e s) session \<noteq> None \<longrightarrow>
        (\<exists>eid. e = CreateResolves eid))"
proof (intro conjI impI)
  assume "clients s session = Some client
      \<and> (ic = Resolves t True \<or> ic = Resolves t False \<and> qrCodes s session \<noteq> None)"
  then show "engines (snd (start_session s session webhook waitQrCode ic cl sched)) = engines s"
    by (auto simp add: start_session_def)
next
  assume "clients s session = None"
  then show "length (engines (snd (start_session s session webhook waitQrCode ic cl sched)))
          = Suc (length (engines s))"
    by (simp add: start_session_def create_session_length)
next
  assume "clients s session = None"
  then show "c_session (engines (snd (start_session s session webhook waitQrCode ic cl sched))
           ! length (engines s)) = session"
    by (simp add: start_session_def create_session_owner)
next
  assume "clients s session = None"
  then show "clients (snd (start_session s session webhook False ic cl sched)) session = None"
    by (simp add: start_session_def create_session_def prepare_maps Let_def)
next
  assume "clients s session = None"
  then show "promise (engines (snd (start_session s session webhook False ic cl sched))
           ! length (engines s)) = Pending"
    by (simp add: start_session_def create_session_def prepare_engines Let_def)
next
  assume "clients s session = None \<and> clients (apply_event e s) session \<noteq> None"
  then show "\<exists>eid. e = CreateResolves eid"
    using registry_grows_only_on_resolve by blast
qed

theorem start_session_guard_reads_registry_witness:
  "clients (snd first_start) ''acct1'' = None
   \<and> length (engines (snd first_start)) = 1
   \<and> promise (engines (snd first_start) ! 0) = Pending
   \<and> clients (apply_event (CreateResolves 0) (snd first_start)) ''acct1'' = Some 0
   \<and> engines (snd (start_session (apply_event (CreateResolves 0) (snd first_start)) ''acct1'' None False
         (Resolves 5 True) Never (\<lambda>t. []))) = engines (apply_event (CreateResolves 0) (snd first_start))
   \<and> length (engines (snd second_start)) = 2"
proof -
  have a: "clients initial ''acct1'' = None" "length (engines initial) = 0"
    by (simp_all add: initial_def)
  have b: "clients (apply_event (CatchQR 0 ''QR1'') (snd first_start)) ''acct1'' = None"
    "length (engines (apply_event (CatchQR 0 ''QR1'') (snd first_start))) = 1"
    by (simp_all add: start_session_def create_session_def prepare_def launch_def initial_def
          catchQR_def set_local_def)
  have c: "clients (apply_event (CreateResolves 0) (snd first_start)) ''acct1'' = Some 0"
    by (simp add: start_session_def create_session_def prepare_def launch_def initial_def
          create_then_def set_local_def)
  note t1 = start_session_guard_reads_registry
      [of initial "''acct1''" 0 Never 0 None False Never "\<lambda>t. []" "CreateResolves 0"]
  note t2 = start_session_guard_reads_registry
      [of "apply_event (CatchQR 0 ''QR1'') (snd first_start)" "''acct1''" 0 Never 0 None False Never
          "\<lambda>t. []" "CreateResolves 0"]
  note t3 = start_session_guard_reads_registry
      [of "apply_event (CreateResolves 0) (snd first_start)" "''acct1''" 0 "Resolves 5 True" 5 None False
          Never "\<lambda>t. []" "CreateResolves 0"]
  from t1 a have "clients (snd first_start) ''acct1'' = None"
    "length (engines (snd first_start)) = 1" "promise (engines (snd first_start) ! 0) = Pending"
    by simp_all
  moreover from t2 b have "length (engines (snd second_start)) = 2" by simp
  moreover from t3 c have "engines (snd (start_session (apply_event (CreateResolves 0) (snd first_start))
         ''acct1'' None False (Resolves 5 True) Never (\<lambda>t. [])))
      = engines (apply_event (CreateResolves 0) (snd first_start))"
    by simp
  ultimately show ?thesis using c by simp
qed

text \<open>
  C1 as stated fails: after a first start-session call for \<open>acct1\<close> whose engine has
  produced a QR code but whose creation promise is still pending, a second call for
  \<open>acct1\<close> answers \<open>initializing\<close> with a null QR and launches a second engine; both
  engines are then live.
\<close>

theorem second_start_launches_second_engine:
  "promise (engines (apply_event (CatchQR 0 ''QR1'') (snd first_start)) ! 0) = Pending
   \<and> qrCodes (apply_event (CatchQR 0 ''QR1'') (snd first_start)) ''acct1'' = Some ''QR1''
   \<and> live_engines (apply_event (CatchQR 0 ''QR1'') (snd first_start)) ''acct1'' = [0]
   \<and> fst second_start =
       Some \<lparr>code = 200,
             body = [(''success'', JBool True), (''session'', JStr ''acct1''),
                     (''qrCode'', JNull), (''status'', JStr ''initializing''),
                     (''message'', JStr ''Session starting''), (''webhook'', JNull)]\<rparr>
   \<and> length (engines (snd second_start)) = 2
   \<and> live_engines (snd second_start) ''acct1'' = [0, 1]"
  by (simp add: start_session_def create_session_def prepare_def launch_def initial_def
        catchQR_def set_local_def live_engines_def json_or_null_def upt_rec)

section \<open>The QR wait and its ceiling\<close>

text \<open>
  C8. The QR wait of a start-session call with \<open>waitQrCode\<close> tests its condition every
  500 ms: it ends at the first test, \<open>500 * k\<close> ms after it began, at which the engine's
  QR payload or the creation error is there, and after 60 sleeps (30000 ms) at the
  latest. When it ends with neither, the 30000 ms have elapsed and the call answers
  500 with the timeout message; the \<open>catch\<close> block removes the id from both maps but
  calls no engine method and leaves the engines as they are, so the creation is not
  cancelled: if its promise is still pending and resolves afterwards, the registry
  receives the handle. When it ends with a QR payload and no creation error, the call
  answers 200 with that payload; when it ends with a creation error, the call answers
  500 with the error's message.
\<close>

theorem qr_wait_polls_then_times_out:
  "(\<exists>k\<le>60.
        qr_wait_of s session webhook sched
          = (500 * k, state_after sched k (prepare s session webhook))
      \<and> (\<forall>j<k. waiting (length (engines s)) (state_after sched j (prepare s session webhook)))
      \<and> (k < 60 \<longrightarrow>
           \<not> waiting (length (engines s)) (state_after sched k (prepare s session webhook))))
   \<and> fst (qr_wait_of s session webhook sched) \<le> 30000
   \<and> 500 dvd fst (qr_wait_of s session webhook sched)
   \<and> (waiting (length (engines s)) (snd (qr_wait_of s session webhook sched)) \<longrightarrow>
        fst (qr_wait_of s session webhook sched) = 30000
      \<and> create_session s session webhook True sched =
          (Some \<lparr>code = 500,
                 body = [(''success'', JBool False),
                         (''error'', JStr ''QR code generation timeout - the server may be overloaded, please try again''),
                         (''details'', JOpaque ''error.stack''), (''session'', JStr session)]\<rparr>,
           forget session (snd (qr_wait_of s session webhook sched)))
      \<and> engines (snd (create_session s session webhook True sched))
          = engines (snd (qr_wait_of s session webhook sched))
      \<and> calls (snd (create_session s session webhook True sched)) = calls s
      \<and> (promise (engines (snd (qr_wait_of s session webhook sched)) ! length (engines s)) = Pending \<longrightarrow>
           clients (apply_event (CreateResolves (length (engines s)))
                      (snd (create_session s session webhook True sched))) session
             = Some (length (engines s))))
   \<and> (createError (engines (snd (qr_wait_of s session webhook sched)) ! length (engines s)) = None
      \<and> truthy (qrCode (engines (snd (qr_wait_of s session webhook sched)) ! length (engines s))) \<longrightarrow>
        create_session s session webhook True sched =
          (Some \<lparr>code = 200,
                 body = [(''success'', JBool True), (''session'', JStr session),
                         (''qrCode'', JStr (the (qrCode (engines (snd (qr_wait_of s session webhook sched))
                                                          ! length (engines s))))),
                         (''status'', JStr (sessionStatus (engines (snd (qr_wait_of s session webhook sched))
                                                            ! length (engines s)))),
                         (''message'', JStr ''QR Code ready - scan to connect''),
                         (''webhook'', if truthy webhook then JStr (the webhook) else JNull)]\<rparr>,
           snd (qr_wait_of s session webhook sched)))
   \<and> (createError (engines (snd (qr_wait_of s session webhook sched)) ! length (engines s)) = Some m \<longrightarrow>
        create_session s session webhook True sched =
          (Some \<lparr>code = 500,
                 body = [(''success'', JBool False), (''error'', JStr (create_error_message m)),
                         (''details'', JOpaque ''error.stack''), (''session'', JStr session)]\<rparr>,
           forget session (snd (qr_wait_of s session webhook sched))))
   \<and> (clients s session = None \<longrightarrow>
        start_session s session webhook True ic cl sched = create_session s session webhook True sched)"
proof -
  let ?eid = "length (engines s)"
  let ?w = "qr_wait_of s session webhook sched"
  let ?p = "prepare s session webhook"
  have polls: "\<exists>k\<le>60. ?w = (500 * k, state_after sched k ?p)
      \<and> (\<forall>j<k. waiting ?eid (state_after sched j ?p))
      \<and> (k < 60 \<longrightarrow> \<not> waiting ?eid (state_after sched k ?p))"
    using qr_wait_polls [of 0 sched ?eid ?p] by (auto simp add: qr_wait_of_def)
  have steps: "fst ?w \<le> 30000 \<and> 500 dvd fst ?w"
    unfolding qr_wait_of_def by (rule qr_wait_steps) simp_all
  have len: "length (engines (snd ?w)) = Suc ?eid"
    by (simp add: qr_wait_of_def qr_wait_length prepare_engines)
  have owner: "c_session (engines (snd ?w) ! ?eid) = session"
    by (simp add: qr_wait_of_def qr_wait_session prepare_engines)
  {
    assume wt: "waiting ?eid (snd ?w)"
    then have "30000 \<le> fst ?w"
      unfolding qr_wait_of_def by (rule qr_wait_exit)
    with steps have at_ceiling: "fst ?w = 30000" by simp
    from wt have resp: "create_session s session webhook True sched =
          (Some \<lparr>code = 500,
                 body = [(''success'', JBool False),
                         (''error'', JStr ''QR code generation timeout - the server may be overloaded, please try again''),
                         (''details'', JOpaque ''error.stack''), (''session'', JStr session)]\<rparr>,
           forget session (snd ?w))"
      by (simp add: create_session_def qr_wait_of_def waiting_def start_failed_def Let_def)
    have eng: "engines (snd (create_session s session webhook True sched)) = engines (snd ?w)"
      by (simp add: resp forget_fields)
    have cls: "calls (snd (create_session s session webhook True sched)) = calls s"
      by (simp add: resp forget_fields qr_wait_of_def qr_wait_calls prepare_maps)
    {
      assume pend: "promise (engines (snd ?w) ! ?eid) = Pending"
      have "clients (apply_event (CreateResolves ?eid) (forget session (snd ?w)))
              (c_session (engines (forget session (snd ?w)) ! ?eid)) = Some ?eid"
        by (rule create_then_registers) (simp_all add: forget_fields len pend)
      then have "clients (apply_event (CreateResolves ?eid)
                      (snd (create_session s session webhook True sched))) session = Some ?eid"
        by (simp add: resp forget_fields owner)
    }
    note at_ceiling resp eng cls this
  }
  note timeout = this
  have qr: "createError (engines (snd ?w) ! ?eid) = None \<and> truthy (qrCode (engines (snd ?w) ! ?eid)) \<longrightarrow>
        create_session s session webhook True sched =
          (Some \<lparr>code = 200,
                 body = [(''success'', JBool True), (''session'', JStr session),
                         (''qrCode'', JStr (the (qrCode (engines (snd ?w) ! ?eid)))),
                         (''status'', JStr (sessionStatus (engines (snd ?w) ! ?eid))),
                         (''message'', JStr ''QR Code ready - scan to connect''),
                         (''webhook'', if truthy webhook then JStr (the webhook) else JNull)]\<rparr>,
           snd ?w)"
    by (cases "qrCode (engines (snd ?w) ! ?eid)")
       (simp_all add: create_session_def qr_wait_of_def Let_def json_or_null_def)
  have err: "createError (engines (snd ?w) ! ?eid) = Some m \<longrightarrow>
        create_session s session webhook True sched =
          (Some \<lparr>code = 500,
                 body = [(''success'', JBool False), (''error'', JStr (create_error_message m)),
                         (''details'', JOpaque ''error.stack''), (''session'', JStr session)]\<rparr>,
           forget session (snd ?w))"
    by (simp add: create_session_def qr_wait_of_def Let_def start_failed_def)
  have same: "clients s session = None \<longrightarrow>
        start_session s session webhook True ic cl sched = create_session s session webhook True sched"
    by (simp add: start_session_def)
  from polls steps timeout qr err same show ?thesis by blast
qed

theorem qr_wait_polls_then_times_out_witness:
  "waiting 0 (snd (qr_wait_of initial ''acct1'' None (\<lambda>t. [])))
   \<and> fst (qr_wait_of initial ''acct1'' None (\<lambda>t. [])) = 30000
   \<and> promise (engines (snd (qr_wait_of initial ''acct1'' None (\<lambda>t. []))) ! 0) = Pending
   \<and> start_session initial ''acct1'' None True Never Never (\<lambda>t. []) =
       (Some \<lparr>code = 500,
              body = [(''success'', JBool False),
                      (''error'', JStr ''QR code generation timeout - the server may be overloaded, please try again''),
                      (''details'', JOpaque ''error.stack''), (''session'', JStr ''acct1'')]\<rparr>,
        initial\<lparr>engines := [\<lparr>c_session = ''acct1'', qrCode = None, sessionStatus = ''initializing'',
                               clientCreated = False, createError = None, promise = Pending\<rparr>]\<rparr>)
   \<and> clients (apply_event (CreateResolves 0)
        (snd (start_session initial ''acct1'' None True Never Never (\<lambda>t. [])))) ''acct1'' = Some 0
   \<and> qr_wait_of initial ''acct1'' None (\<lambda>t. if t = 1500 then [CatchQR 0 ''QR1''] else []) =
       (2000,
        initial\<lparr>qrCodes := [''acct1'' \<mapsto> ''QR1''],
                engines := [\<lparr>c_session = ''acct1'', qrCode = Some ''QR1'', sessionStatus = ''qrcode'',
                             clientCreated = False, createError = None, promise = Pending\<rparr>]\<rparr>)
   \<and> start_session initial ''acct1'' None True Never Never
        (\<lambda>t. if t = 1500 then [CatchQR 0 ''QR1''] else []) =
       (Some \<lparr>code = 200,
              body = [(''success'', JBool True), (''session'', JStr ''acct1''),
                      (''qrCode'', JStr ''QR1''), (''status'', JStr ''qrcode''),
                      (''message'', JStr ''QR Code ready - scan to connect''),
                      (''webhook'', JNull)]\<rparr>,
        initial\<lparr>qrCodes := [''acct1'' \<mapsto> ''QR1''],
                engines := [\<lparr>c_session = ''acct1'', qrCode = Some ''QR1'', sessionStatus = ''qrcode'',
                             clientCreated = False, createError = None, promise = Pending\<rparr>]\<rparr>)"
proof -
  let ?idle = "\<lambda>t::nat. [] :: event list"
  let ?qr = "\<lambda>t::nat. if t = 1500 then [CatchQR 0 ''QR1''] else []"
  let ?fresh = "initial\<lparr>engines := [\<lparr>c_session = ''acct1'', qrCode = None, sessionStatus = ''initializing'',
                               clientCreated = False, createError = None, promise = Pending\<rparr>]\<rparr>"
  let ?shown = "initial\<lparr>qrCodes := [''acct1'' \<mapsto> ''QR1''],
                engines := [\<lparr>c_session = ''acct1'', qrCode = Some ''QR1'', sessionStatus = ''qrcode'',
                             clientCreated = False, createError = None, promise = Pending\<rparr>]\<rparr>"
  have e: "length (engines initial) = 0" "clients initial ''acct1'' = None"
    by (simp_all add: initial_def)
  have st: "prepare initial ''acct1'' None = ?fresh"
    by (simp add: prepare_def launch_def initial_def)
  have idle: "snd (qr_wait_of initial ''acct1'' None ?idle) = ?fresh"
    by (simp add: qr_wait_of_def qr_wait_idle st)
  have f: "forget ''acct1'' ?fresh = ?fresh"
    by (simp add: forget_def initial_def)
  have w: "waiting (length (engines initial)) (snd (qr_wait_of initial ''acct1'' None ?idle))"
    by (simp only: idle e) (simp add: waiting_def initial_def)
  have p: "promise (engines (snd (qr_wait_of initial ''acct1'' None ?idle)) ! length (engines initial))
      = Pending"
    by (simp only: idle e) (simp add: initial_def)
  note main = qr_wait_polls_then_times_out [of initial "''acct1''" None ?idle _ Never Never]
  from main w have c: "fst (qr_wait_of initial ''acct1'' None ?idle) = 30000"
    and r: "create_session initial ''acct1'' None True ?idle =
          (Some \<lparr>code = 500,
                 body = [(''success'', JBool False),
                         (''error'', JStr ''QR code generation timeout - the server may be overloaded, please try again''),
                         (''details'', JOpaque ''error.stack''), (''session'', JStr ''acct1'')]\<rparr>,
           forget ''acct1'' (snd (qr_wait_of initial ''acct1'' None ?idle)))"
    by blast+
  from main w p have "clients (apply_event (CreateResolves (length (engines initial)))
        (snd (create_session initial ''acct1'' None True ?idle))) ''acct1''
      = Some (length (engines initial))"
    by blast
  then have late: "clients (apply_event (CreateResolves 0)
        (snd (create_session initial ''acct1'' None True ?idle))) ''acct1'' = Some 0"
    by (simp only: e(1))
  from main e(2) have same: "start_session initial ''acct1'' None True Never Never ?idle
      = create_session initial ''acct1'' None True ?idle"
    by blast
  from r have r': "create_session initial ''acct1'' None True ?idle =
          (Some \<lparr>code = 500,
                 body = [(''success'', JBool False),
                         (''error'', JStr ''QR code generation timeout - the server may be overloaded, please try again''),
                         (''details'', JOpaque ''error.stack''), (''session'', JStr ''acct1'')]\<rparr>, ?fresh)"
    by (simp only: idle f)
  have q: "qr_wait_of initial ''acct1'' None ?qr = (2000, ?shown)"
    by (simp add: qr_wait_of_def prepare_def launch_def initial_def qr_wait.simps waiting_def
          catchQR_def set_local_def)
  note main2 = qr_wait_polls_then_times_out [of initial "''acct1''" None ?qr _ Never Never]
  have h: "createError (engines (snd (qr_wait_of initial ''acct1'' None ?qr)) ! length (engines initial)) = None
      \<and> truthy (qrCode (engines (snd (qr_wait_of initial ''acct1'' None ?qr)) ! length (engines initial)))"
    by (simp only: q e snd_conv) (simp add: initial_def)
  from main2 h have "create_session initial ''acct1'' None True ?qr =
          (Some \<lparr>code = 200,
                 body = [(''success'', JBool True), (''session'', JStr ''acct1''),
                         (''qrCode'', JStr (the (qrCode (engines (snd (qr_wait_of initial ''acct1'' None ?qr))
                                                          ! length (engines initial))))),
                         (''status'', JStr (sessionStatus (engines (snd (qr_wait_of initial ''acct1'' None ?qr))
                                                            ! length (engines initial)))),
                         (''message'', JStr ''QR Code ready - scan to connect''),
                         (''webhook'', if truthy None then JStr (the None) else JNull)]\<rparr>,
           snd (qr_wait_of initial ''acct1'' None ?qr))"
    by blast
  then have shown: "create_session initial ''acct1'' None True ?qr =
          (Some \<lparr>code = 200,
                 body = [(''success'', JBool True), (''session'', JStr ''acct1''),
                         (''qrCode'', JStr ''QR1''), (''status'', JStr ''qrcode''),
                         (''message'', JStr ''QR Code ready - scan to connect''),
                         (''webhook'', JNull)]\<rparr>, ?shown)"
    by (simp only: q e snd_conv) (simp add: initial_def)
  from main2 e(2) have same2: "start_session initial ''acct1'' None True Never Never ?qr
      = create_session initial ''acct1'' None True ?qr"
    by blast
  have w0: "waiting 0 (snd (qr_wait_of initial ''acct1'' None ?idle))"
    and p0: "promise (engines (snd (qr_wait_of initial ''acct1'' None ?idle)) ! 0) = Pending"
    using w p by (simp_all only: e(1))
  show ?thesis
    using w0 c p0 late r' q shown by (simp only: same same2)
qed

end
